theory Spec2Isabelle
  imports Complex_Main
begin

section \<open>TaxHawk: the tax engine of \<^verbatim>\<open>client/src/engine\<close>\<close>

text \<open>
  The engine computes on JavaScript numbers. The model reads every number as an exact
  rational (\<^typ>\<open>rat\<close>): rupee amounts are integers, rates are the decimal fractions the
  source writes (\<^verbatim>\<open>0.05\<close> is \<open>5/100\<close>), and \<^verbatim>\<open>NaN\<close> and the rounding error of
  binary floating point are outside the model. \<^verbatim>\<open>Infinity\<close>, the upper limit of the last
  slab of every table, is \<open>None\<close> in an optional limit.
\<close>

subsection \<open>Numbers\<close>

text \<open>
  \<^verbatim>\<open>Math.round(x)\<close> is the integer nearest to \<open>x\<close>, a tie going up: \<open>floor (x + 1/2)\<close>.
\<close>

definition Math_round :: "rat \<Rightarrow> rat" where
  "Math_round x = of_int \<lfloor>x + 1 / 2\<rfloor>"

subsection \<open>Constants of \<^verbatim>\<open>taxUtils.js\<close>\<close>

text \<open>A slab is \<^verbatim>\<open>[upper_limit, rate]\<close>; \<open>None\<close> is \<^verbatim>\<open>Infinity\<close>.\<close>

type_synonym slab = "rat option \<times> rat"

definition NEW_REGIME_SLABS_FY2024_25 :: "slab list" where
  "NEW_REGIME_SLABS_FY2024_25 =
     [(Some 300000, 0), (Some 700000, 5 / 100), (Some 1000000, 10 / 100),
      (Some 1200000, 15 / 100), (Some 1500000, 20 / 100), (None, 30 / 100)]"

definition NEW_REGIME_SLABS_FY2025_26 :: "slab list" where
  "NEW_REGIME_SLABS_FY2025_26 =
     [(Some 400000, 0), (Some 800000, 5 / 100), (Some 1200000, 10 / 100),
      (Some 1600000, 15 / 100), (Some 2000000, 20 / 100), (Some 2400000, 25 / 100),
      (None, 30 / 100)]"

definition OLD_REGIME_SLABS_BELOW_60 :: "slab list" where
  "OLD_REGIME_SLABS_BELOW_60 =
     [(Some 250000, 0), (Some 500000, 5 / 100), (Some 1000000, 20 / 100), (None, 30 / 100)]"

definition OLD_REGIME_SLABS_SENIOR :: "slab list" where
  "OLD_REGIME_SLABS_SENIOR =
     [(Some 300000, 0), (Some 500000, 5 / 100), (Some 1000000, 20 / 100), (None, 30 / 100)]"

definition OLD_REGIME_SLABS_SUPER_SENIOR :: "slab list" where
  "OLD_REGIME_SLABS_SUPER_SENIOR =
     [(Some 500000, 0), (Some 1000000, 20 / 100), (None, 30 / 100)]"

definition CESS_RATE :: rat where
  "CESS_RATE = 4 / 100"

text \<open>
  \<^verbatim>\<open>STANDARD_DEDUCTION\<close> and \<^verbatim>\<open>REBATE_87A\<close> are objects keyed by the financial year and
  then by the regime; a key that is absent reads as \<open>None\<close> (\<^verbatim>\<open>undefined\<close>).
\<close>

record std_deduction =
  sd_old :: rat
  sd_new :: rat

definition STANDARD_DEDUCTION :: "string \<Rightarrow> std_deduction option" where
  "STANDARD_DEDUCTION fy =
     (if fy = ''2024-25'' then Some \<lparr>sd_old = 50000, sd_new = 75000\<rparr>
      else if fy = ''2025-26'' then Some \<lparr>sd_old = 75000, sd_new = 75000\<rparr>
      else None)"

record rebate_info =
  income_limit :: rat
  max_rebate :: rat

definition REBATE_87A :: "string \<Rightarrow> string \<Rightarrow> rebate_info option" where
  "REBATE_87A fy regime =
     (if fy = ''2024-25'' then
        (if regime = ''old'' then Some \<lparr>income_limit = 500000, max_rebate = 12500\<rparr>
         else if regime = ''new'' then Some \<lparr>income_limit = 700000, max_rebate = 25000\<rparr>
         else None)
      else if fy = ''2025-26'' then
        (if regime = ''old'' then Some \<lparr>income_limit = 500000, max_rebate = 12500\<rparr>
         else if regime = ''new'' then Some \<lparr>income_limit = 1200000, max_rebate = 60000\<rparr>
         else None)
      else None)"

definition SURCHARGE_SLABS_OLD :: "slab list" where
  "SURCHARGE_SLABS_OLD =
     [(Some 5000000, 0), (Some 10000000, 10 / 100), (Some 20000000, 15 / 100),
      (Some 50000000, 25 / 100), (None, 37 / 100)]"

definition SURCHARGE_SLABS_NEW :: "slab list" where
  "SURCHARGE_SLABS_NEW =
     [(Some 5000000, 0), (Some 10000000, 10 / 100), (Some 20000000, 15 / 100),
      (Some 50000000, 25 / 100), (None, 25 / 100)]"

definition LIMIT_80C :: rat where
  "LIMIT_80C = 150000"

definition LIMIT_80CCD_1B :: rat where
  "LIMIT_80CCD_1B = 50000"

definition LIMIT_80D_SELF_BELOW_60 :: rat where
  "LIMIT_80D_SELF_BELOW_60 = 25000"

definition LIMIT_80D_SELF_SENIOR :: rat where
  "LIMIT_80D_SELF_SENIOR = 50000"

definition LIMIT_80D_PARENTS_BELOW_60 :: rat where
  "LIMIT_80D_PARENTS_BELOW_60 = 25000"

definition LIMIT_80D_PARENTS_SENIOR :: rat where
  "LIMIT_80D_PARENTS_SENIOR = 50000"

definition LIMIT_24B_SELF_OCCUPIED :: rat where
  "LIMIT_24B_SELF_OCCUPIED = 200000"

definition HRA_METRO_PERCENT :: rat where
  "HRA_METRO_PERCENT = 50 / 100"

definition HRA_NON_METRO_PERCENT :: rat where
  "HRA_NON_METRO_PERCENT = 40 / 100"

definition HRA_RENT_MINUS_BASIC_PERCENT :: rat where
  "HRA_RENT_MINUS_BASIC_PERCENT = 10 / 100"

definition LTCG_EXEMPTION :: rat where
  "LTCG_EXEMPTION = 125000"

definition LTCG_RATE :: rat where
  "LTCG_RATE = 125 / 1000"

definition STCG_RATE :: rat where
  "STCG_RATE = 20 / 100"

subsection \<open>Core tax functions\<close>

text \<open>
  \<^verbatim>\<open>computeTaxOnSlabs\<close>: the loop over the slabs carries \<^verbatim>\<open>tax\<close> and \<^verbatim>\<open>prevLimit\<close> and
  breaks as soon as \<^verbatim>\<open>taxableIncome <= prevLimit\<close>.
\<close>

fun slabs_loop :: "rat \<Rightarrow> slab list \<Rightarrow> rat \<Rightarrow> rat option \<Rightarrow> rat" where
  "slabs_loop taxableIncome [] tax prevLimit = tax"
| "slabs_loop taxableIncome ((upperLimit, rate) # rest) tax prevLimit =
     (case prevLimit of
        None \<Rightarrow> tax
      | Some p \<Rightarrow>
          if taxableIncome \<le> p then tax
          else
            let taxableInSlab =
                  (case upperLimit of None \<Rightarrow> taxableIncome | Some u \<Rightarrow> min taxableIncome u) - p
            in slabs_loop taxableIncome rest (tax + taxableInSlab * rate) upperLimit)"

definition computeTaxOnSlabs :: "rat \<Rightarrow> slab list \<Rightarrow> rat" where
  "computeTaxOnSlabs taxableIncome slabs = slabs_loop taxableIncome slabs 0 (Some 0)"

definition applyCess :: "rat \<Rightarrow> rat" where
  "applyCess tax = Math_round (tax * CESS_RATE)"

definition apply87aRebate :: "rat \<Rightarrow> rat \<Rightarrow> string \<Rightarrow> string \<Rightarrow> rat" where
  "apply87aRebate tax taxableIncome regime fy =
     (case REBATE_87A fy regime of
        Some rebateInfo \<Rightarrow>
          if taxableIncome \<le> income_limit rebateInfo then
            let rebate = min tax (max_rebate rebateInfo) in Math_round (tax - rebate)
          else tax
      | None \<Rightarrow> tax)"

text \<open>
  \<^verbatim>\<open>getSurcharge\<close>: the first loop finds the surcharge slab of the income and remembers
  the limit and the rate of the slab below it; the result of the loop is
  \<open>(rate, prevThreshold, prevRate)\<close>.
\<close>

fun surcharge_loop :: "rat \<Rightarrow> slab list \<Rightarrow> rat \<Rightarrow> rat \<Rightarrow> rat \<times> rat \<times> rat" where
  "surcharge_loop taxableIncome [] prevThreshold prevRate = (0, prevThreshold, prevRate)"
| "surcharge_loop taxableIncome ((upperLimit, surchargeRate) # rest) prevThreshold prevRate =
     (case upperLimit of
        None \<Rightarrow> (surchargeRate, prevThreshold, prevRate)
      | Some u \<Rightarrow>
          if taxableIncome \<le> u then (surchargeRate, prevThreshold, prevRate)
          else surcharge_loop taxableIncome rest u surchargeRate)"

definition getSurcharge :: "rat \<Rightarrow> rat \<Rightarrow> slab list \<Rightarrow> slab list \<Rightarrow> rat" where
  "getSurcharge taxableIncome baseTax surchargeSlabs taxSlabs =
     (case surcharge_loop taxableIncome surchargeSlabs 0 0 of
        (rate, prevThreshold, prevRate) \<Rightarrow>
          if rate = 0 then 0
          else
            let rawSurcharge = baseTax * rate;
                taxAtThreshold = computeTaxOnSlabs prevThreshold taxSlabs;
                surchargeAtThreshold = taxAtThreshold * prevRate;
                totalAtThreshold = taxAtThreshold + surchargeAtThreshold;
                excessIncome = taxableIncome - prevThreshold;
                maxTotal = totalAtThreshold + excessIncome;
                rawTotal = baseTax + rawSurcharge
            in if rawTotal > maxTotal then Math_round (max (maxTotal - baseTax) 0)
               else Math_round rawSurcharge)"

text \<open>
  \<^verbatim>\<open>getMarginalRate\<close>: the rate of the first slab whose limit the income does not exceed,
  the rate of the last slab when it exceeds them all.
\<close>

fun marginal_loop :: "rat \<Rightarrow> slab list \<Rightarrow> rat \<Rightarrow> rat" where
  "marginal_loop taxableIncome [] rate = rate"
| "marginal_loop taxableIncome ((upperLimit, slabRate) # rest) rate =
     (case upperLimit of
        None \<Rightarrow> slabRate
      | Some u \<Rightarrow>
          if taxableIncome \<le> u then slabRate
          else marginal_loop taxableIncome rest slabRate)"

definition getMarginalRate :: "rat \<Rightarrow> string \<Rightarrow> string \<Rightarrow> string \<Rightarrow> rat" where
  "getMarginalRate taxableIncome regime fy ageCategory =
     (let slabs =
            (if regime = ''new'' then
               (if fy = ''2025-26'' then NEW_REGIME_SLABS_FY2025_26
                else NEW_REGIME_SLABS_FY2024_25)
             else if ageCategory = ''super_senior'' then OLD_REGIME_SLABS_SUPER_SENIOR
             else if ageCategory = ''senior'' then OLD_REGIME_SLABS_SENIOR
             else OLD_REGIME_SLABS_BELOW_60)
      in marginal_loop taxableIncome slabs 0)"

text \<open>The breakdown that both regime calculators return.\<close>

record tax_breakdown =
  tb_taxable_income :: rat
  base_tax :: rat
  rebate_87a :: rat
  tax_after_rebate :: rat
  surcharge :: rat
  tb_cess :: rat
  total_tax :: rat

definition calculateNewRegimeTax :: "rat \<Rightarrow> string \<Rightarrow> tax_breakdown" where
  "calculateNewRegimeTax taxableIncome fy =
     (let slabs = (if fy = ''2025-26'' then NEW_REGIME_SLABS_FY2025_26
                   else NEW_REGIME_SLABS_FY2024_25);
          baseTax = computeTaxOnSlabs taxableIncome slabs;
          taxAfterRebate = apply87aRebate baseTax taxableIncome ''new'' fy;
          surcharge = getSurcharge taxableIncome taxAfterRebate SURCHARGE_SLABS_NEW slabs;
          cess = applyCess (taxAfterRebate + surcharge);
          totalTax = Math_round (taxAfterRebate + surcharge + cess)
      in \<lparr>tb_taxable_income = taxableIncome,
          base_tax = Math_round baseTax,
          rebate_87a = Math_round (baseTax - taxAfterRebate),
          tax_after_rebate = taxAfterRebate,
          surcharge = surcharge,
          tb_cess = cess,
          total_tax = totalTax\<rparr>)"

definition calculateOldRegimeTax :: "rat \<Rightarrow> string \<Rightarrow> string \<Rightarrow> tax_breakdown" where
  "calculateOldRegimeTax taxableIncome fy ageCategory =
     (let slabs = (if ageCategory = ''super_senior'' then OLD_REGIME_SLABS_SUPER_SENIOR
                   else if ageCategory = ''senior'' then OLD_REGIME_SLABS_SENIOR
                   else OLD_REGIME_SLABS_BELOW_60);
          baseTax = computeTaxOnSlabs taxableIncome slabs;
          taxAfterRebate = apply87aRebate baseTax taxableIncome ''old'' fy;
          surcharge = getSurcharge taxableIncome taxAfterRebate SURCHARGE_SLABS_OLD slabs;
          cess = applyCess (taxAfterRebate + surcharge);
          totalTax = Math_round (taxAfterRebate + surcharge + cess)
      in \<lparr>tb_taxable_income = taxableIncome,
          base_tax = Math_round baseTax,
          rebate_87a = Math_round (baseTax - taxAfterRebate),
          tax_after_rebate = taxAfterRebate,
          surcharge = surcharge,
          tb_cess = cess,
          total_tax = totalTax\<rparr>)"

text \<open>
  \<^verbatim>\<open>calculateHraExemption\<close>: the least of the three statutory amounts, never below zero.
\<close>

definition calculateHraExemption :: "rat \<Rightarrow> rat \<Rightarrow> rat \<Rightarrow> bool \<Rightarrow> rat" where
  "calculateHraExemption basicAnnual hraReceivedAnnual rentPaidAnnual isMetro =
     (let optionA = hraReceivedAnnual;
          optionB = rentPaidAnnual - HRA_RENT_MINUS_BASIC_PERCENT * basicAnnual;
          optionC = (if isMetro then HRA_METRO_PERCENT else HRA_NON_METRO_PERCENT) * basicAnnual
      in max (min (min optionA optionB) optionC) 0)"

subsection \<open>Data model of \<^verbatim>\<open>models.js\<close>\<close>

text \<open>
  Prose. The findings carry template strings that splice numbers in through
  \<^verbatim>\<open>toLocaleString('en-IN')\<close>, \<^verbatim>\<open>toFixed(0)\<close> and the default conversion of a number to
  a string. How the host prints a number is not part of the engine, so a template string
  is kept as the list of its pieces: \<open>Lit\<close> is literal text (or a spliced string),
  \<open>Rupee\<close> is the rupee sign (U+20B9), \<open>Emdash\<close> is the dash U+2014, \<open>INR x\<close> is
  \<^verbatim>\<open>x.toLocaleString('en-IN')\<close>, \<open>Fixed0 x\<close> is \<^verbatim>\<open>x.toFixed(0)\<close> and \<open>NumStr x\<close> is
  \<^verbatim>\<open>${x}\<close>. Two equal lists of pieces print the same string.
\<close>

datatype piece = Lit string | Rupee | Emdash | INR rat | Fixed0 rat | NumStr rat

type_synonym prose = "piece list"

definition newline :: piece where
  "newline = Lit [CHR 0x0A]"

text \<open>
  The values of the open \<^verbatim>\<open>details\<close> dictionary of a finding. An object is the list of
  its properties in insertion order.
\<close>

datatype jsval =
    Num rat
  | Str string
  | Prose prose
  | Bool bool
  | Arr "jsval list"
  | Obj "(string \<times> jsval) list"

datatype FindingStatus = OPPORTUNITY | OPTIMIZED | NOT_APPLICABLE

datatype Confidence = DEFINITE | LIKELY | NEEDS_VERIFICATION

definition METRO_CITIES :: "string list" where
  "METRO_CITIES = [''mumbai'', ''delhi'', ''kolkata'', ''chennai'']"

text \<open>
  The object that \<^verbatim>\<open>createSalaryProfile\<close> returns, every field filled in. The getters
  \<^verbatim>\<open>is_metro\<close>, \<^verbatim>\<open>total_exemptions\<close> and \<^verbatim>\<open>total_chapter_via\<close> are functions of it.
\<close>

record SalaryProfile =
  financial_year :: string
  employee_name :: string
  pan :: string
  employer_name :: string
  gross_salary :: rat
  basic_salary :: rat
  hra_received :: rat
  special_allowance :: rat
  lta :: rat
  bonus :: rat
  other_salary :: rat
  hra_exemption :: rat
  lta_exemption :: rat
  other_exemptions :: rat
  standard_deduction :: rat
  professional_tax :: rat
  deduction_80c :: rat
  deduction_80ccc :: rat
  deduction_80ccd_1 :: rat
  deduction_80ccd_1b :: rat
  deduction_80ccd_2 :: rat
  deduction_80d :: rat
  deduction_80e :: rat
  deduction_80g :: rat
  deduction_80tta :: rat
  deduction_24b :: rat
  other_deductions :: rat
  taxable_income :: rat
  tax_payable :: rat
  cess :: rat
  total_tax_paid :: rat
  regime :: string
  city :: string
  monthly_rent :: rat
  epf_employee_contribution :: rat

text \<open>\<^verbatim>\<open>toLowerCase\<close> on the letters A to Z; the city tokens are ASCII.\<close>

definition lower_char :: "char \<Rightarrow> char" where
  "lower_char c =
     (let n = (of_char c :: nat)
      in if 65 \<le> n \<and> n \<le> 90 then char_of (n + 32) else c)"

definition toLowerCase :: "string \<Rightarrow> string" where
  "toLowerCase s = map lower_char s"

definition is_metro :: "SalaryProfile \<Rightarrow> bool" where
  "is_metro p = (toLowerCase (city p) \<in> set METRO_CITIES)"

definition total_exemptions :: "SalaryProfile \<Rightarrow> rat" where
  "total_exemptions p = hra_exemption p + lta_exemption p + other_exemptions p"

definition total_chapter_via :: "SalaryProfile \<Rightarrow> rat" where
  "total_chapter_via p =
     deduction_80c p + deduction_80ccc p + deduction_80ccd_1 p + deduction_80ccd_1b p +
     deduction_80ccd_2 p + deduction_80d p + deduction_80e p + deduction_80g p +
     deduction_80tta p + deduction_24b p + other_deductions p"

text \<open>
  A date, as far as the engine reads one: \<^verbatim>\<open>getFullYear()\<close>, \<^verbatim>\<open>getMonth()\<close> (January
  is 0) and the day of the month.
\<close>

record date =
  year :: int
  month :: int
  day :: int

record Holding =
  security_name :: string
  security_type :: string
  purchase_date :: date
  purchase_price :: rat
  quantity :: rat
  current_price :: rat

definition total_cost :: "Holding \<Rightarrow> rat" where
  "total_cost h = Math_round (purchase_price h * quantity h * 100) / 100"

definition current_value :: "Holding \<Rightarrow> rat" where
  "current_value h = Math_round (current_price h * quantity h * 100) / 100"

definition unrealized_gain :: "Holding \<Rightarrow> rat" where
  "unrealized_gain h = Math_round ((current_value h - total_cost h) * 100) / 100"

definition holdingMonths :: "Holding \<Rightarrow> date \<Rightarrow> int" where
  "holdingMonths h ref =
     (let pd = purchase_date h
      in (year ref - year pd) * 12 + (month ref - month pd))"

definition isLongTerm :: "Holding \<Rightarrow> date \<Rightarrow> bool" where
  "isLongTerm h asOf =
     (let months = holdingMonths h asOf
      in if security_type h \<in> set [''equity_share'', ''equity_mf'', ''elss'']
         then months > 12
         else months > 24)"

record Holdings =
  holdings :: "Holding list"
  realized_stcg_this_fy :: rat
  realized_ltcg_this_fy :: rat

text \<open>\<^verbatim>\<open>createHoldings({})\<close>: no holding, nothing realised.\<close>

definition empty_holdings :: Holdings where
  "empty_holdings = \<lparr>holdings = [], realized_stcg_this_fy = 0, realized_ltcg_this_fy = 0\<rparr>"

text \<open>
  The object that \<^verbatim>\<open>createFinding\<close> returns. Its defaults (\<^verbatim>\<open>data.savings || 0\<close>,
  \<^verbatim>\<open>data.explanation || ''\<close>, ...) change nothing on the values the checks pass, except
  that an explanation a check leaves out is the empty string.
\<close>

record Finding =
  check_id :: string
  check_name :: string
  status :: FindingStatus
  finding :: prose
  savings :: rat
  action :: prose
  deadline :: prose
  confidence :: Confidence
  explanation :: prose
  details :: "(string \<times> jsval) list"

text \<open>The report, \<^verbatim>\<open>createTaxHawkResult\<close>.\<close>

record Report =
  user_name :: string
  report_financial_year :: string
  current_regime :: string
  recommended_regime :: string
  total_savings :: rat
  checks :: "Finding list"
  summary :: prose
  disclaimer :: prose

definition createTaxHawkResult ::
  "string \<Rightarrow> string \<Rightarrow> string \<Rightarrow> string \<Rightarrow> rat \<Rightarrow> Finding list \<Rightarrow> prose \<Rightarrow> Report" where
  "createTaxHawkResult user_name' financial_year' current_regime' recommended_regime'
       total_savings' checks' summary' =
     \<lparr>user_name = user_name',
      report_financial_year = financial_year',
      current_regime = current_regime',
      recommended_regime = recommended_regime',
      total_savings = total_savings',
      checks = checks',
      summary = summary',
      disclaimer =
        [Lit (''This analysis is for informational purposes only and does not constitute '' @
              ''tax advice. Please consult a qualified Chartered Accountant before making '' @
              ''tax decisions. Tax laws are subject to change.'')]\<rparr>"

subsection \<open>Taxable income under both regimes\<close>

definition computeNewRegimeTaxableIncome :: "SalaryProfile \<Rightarrow> rat" where
  "computeNewRegimeTaxableIncome salary =
     (let fy = financial_year salary;
          stdDed = (case STANDARD_DEDUCTION fy of Some d \<Rightarrow> sd_new d | None \<Rightarrow> 75000);
          taxable = gross_salary salary - stdDed - professional_tax salary -
                    deduction_80ccd_2 salary
      in max taxable 0)"

text \<open>
  The what-if overrides of \<^verbatim>\<open>computeOldRegimeTaxableIncome\<close>: \<open>None\<close> is a property that
  is absent (or \<^verbatim>\<open>null\<close>), and then the value of the profile is used.
\<close>

record old_regime_opts =
  hraExemption :: "rat option"
  total80c :: "rat option"
  total80d :: "rat option"
  total80ccd1b :: "rat option"
  total24b :: "rat option"

definition no_overrides :: old_regime_opts where
  "no_overrides =
     \<lparr>hraExemption = None, total80c = None, total80d = None, total80ccd1b = None,
      total24b = None\<rparr>"

record old_breakdown =
  ob_gross_salary :: rat
  ob_hra_exemption :: rat
  ob_lta_exemption :: rat
  ob_other_exemptions :: rat
  ob_net_salary :: rat
  ob_standard_deduction :: rat
  ob_professional_tax :: rat
  ob_gross_total_income :: rat
  ob_deduction_80c :: rat
  ob_deduction_80ccd_1b :: rat
  ob_deduction_80ccd_2 :: rat
  ob_deduction_80d :: rat
  ob_deduction_24b :: rat
  ob_deduction_other :: rat
  ob_total_vi_a :: rat
  ob_taxable_income :: rat

definition computeOldRegimeTaxableIncome :: "SalaryProfile \<Rightarrow> old_regime_opts \<Rightarrow> old_breakdown" where
  "computeOldRegimeTaxableIncome salary opts =
     (let fy = financial_year salary;
          stdDed = (case STANDARD_DEDUCTION fy of Some d \<Rightarrow> sd_old d | None \<Rightarrow> 50000);
          hraExempt = (case hraExemption opts of Some v \<Rightarrow> v | None \<Rightarrow> hra_exemption salary);
          netSalary = gross_salary salary - hraExempt - lta_exemption salary -
                      other_exemptions salary;
          gti = netSalary - stdDed - professional_tax salary;
          ded80c = (case total80c opts of
                      Some v \<Rightarrow> v
                    | None \<Rightarrow> min (deduction_80c salary + deduction_80ccc salary +
                                    deduction_80ccd_1 salary) LIMIT_80C);
          ded80d = (case total80d opts of Some v \<Rightarrow> v | None \<Rightarrow> deduction_80d salary);
          ded80ccd1b = (case total80ccd1b opts of
                          Some v \<Rightarrow> v
                        | None \<Rightarrow> deduction_80ccd_1b salary);
          ded80ccd2 = deduction_80ccd_2 salary;
          ded24b = (case total24b opts of
                      Some v \<Rightarrow> min v LIMIT_24B_SELF_OCCUPIED
                    | None \<Rightarrow> min (deduction_24b salary) LIMIT_24B_SELF_OCCUPIED);
          dedOther = deduction_80e salary + deduction_80g salary + deduction_80tta salary +
                     other_deductions salary;
          totalVia = ded80c + ded80ccd1b + ded80ccd2 + ded80d + ded24b + dedOther;
          taxableIncome = max (gti - totalVia) 0
      in \<lparr>ob_gross_salary = gross_salary salary,
          ob_hra_exemption = hraExempt,
          ob_lta_exemption = lta_exemption salary,
          ob_other_exemptions = other_exemptions salary,
          ob_net_salary = netSalary,
          ob_standard_deduction = stdDed,
          ob_professional_tax = professional_tax salary,
          ob_gross_total_income = gti,
          ob_deduction_80c = ded80c,
          ob_deduction_80ccd_1b = ded80ccd1b,
          ob_deduction_80ccd_2 = ded80ccd2,
          ob_deduction_80d = ded80d,
          ob_deduction_24b = ded24b,
          ob_deduction_other = dedOther,
          ob_total_vi_a = totalVia,
          ob_taxable_income = taxableIncome\<rparr>)"

text \<open>The breakdown as the object that goes into the details of the regime finding.\<close>

definition old_breakdown_obj :: "old_breakdown \<Rightarrow> jsval" where
  "old_breakdown_obj b =
     Obj [(''gross_salary'', Num (ob_gross_salary b)),
          (''hra_exemption'', Num (ob_hra_exemption b)),
          (''lta_exemption'', Num (ob_lta_exemption b)),
          (''other_exemptions'', Num (ob_other_exemptions b)),
          (''net_salary'', Num (ob_net_salary b)),
          (''standard_deduction'', Num (ob_standard_deduction b)),
          (''professional_tax'', Num (ob_professional_tax b)),
          (''gross_total_income'', Num (ob_gross_total_income b)),
          (''deduction_80c'', Num (ob_deduction_80c b)),
          (''deduction_80ccd_1b'', Num (ob_deduction_80ccd_1b b)),
          (''deduction_80ccd_2'', Num (ob_deduction_80ccd_2 b)),
          (''deduction_80d'', Num (ob_deduction_80d b)),
          (''deduction_24b'', Num (ob_deduction_24b b)),
          (''deduction_other'', Num (ob_deduction_other b)),
          (''total_vi_a'', Num (ob_total_vi_a b)),
          (''taxable_income'', Num (ob_taxable_income b))]"

subsection \<open>The checks\<close>

text \<open>
  Options of \<^verbatim>\<open>checkRegime\<close> and \<^verbatim>\<open>check80d\<close>: \<open>None\<close> is a property the caller leaves
  out, and \<^verbatim>\<open>opts.parentsSenior || false\<close> reads it as \<open>False\<close>.
\<close>

record check_opts =
  parentsSenior :: "bool option"
  selfSenior :: "bool option"

definition or_false :: "bool option \<Rightarrow> bool" where
  "or_false b = (case b of Some v \<Rightarrow> v | None \<Rightarrow> False)"

text \<open>Check 2, \<^verbatim>\<open>check80c\<close> (\<^verbatim>\<open>eightyCGap.js\<close>).\<close>

definition check80c :: "SalaryProfile \<Rightarrow> Finding" where
  "check80c salary =
     (let fy = financial_year salary;
          current80c = min (deduction_80c salary + deduction_80ccc salary +
                            deduction_80ccd_1 salary) LIMIT_80C;
          epf = epf_employee_contribution salary;
          gap = max (LIMIT_80C - current80c) 0
      in if gap \<le> 0 then
           \<lparr>check_id = ''80c_gap'',
            check_name = ''Section 80C Gap'',
            status = OPTIMIZED,
            finding = [Lit ''80C fully utilized at '', Rupee, INR current80c],
            savings = 0,
            action = [Lit ''No action needed '', Emdash, Lit '' 80C limit already maxed''],
            deadline = [Lit ''N/A''],
            confidence = DEFINITE,
            explanation = [],
            details = [(''epf_contribution'', Num epf),
                       (''current_80c_total'', Num current80c),
                       (''limit'', Num LIMIT_80C),
                       (''gap'', Num 0)]\<rparr>
         else
           let oldBreakdown = computeOldRegimeTaxableIncome salary no_overrides;
               gti = ob_gross_total_income oldBreakdown;
               marginal = getMarginalRate gti ''old'' fy ''below_60'';
               taxSaved = Math_round (gap * marginal * (1 + CESS_RATE))
           in \<lparr>check_id = ''80c_gap'',
               check_name = ''Section 80C Gap'',
               status = OPPORTUNITY,
               finding = [Rupee, INR gap, Lit '' gap in 80C limit. '',
                          Lit ''EPF covers '', Rupee, INR epf, Lit '' of '', Rupee,
                          Fixed0 (LIMIT_80C / 1000), Lit ''K''],
               savings = taxSaved,
               action = [Lit ''Invest '', Rupee, INR gap, Lit '' in ELSS mutual fund '',
                         Lit ''(e.g., Mirae Asset ELSS, Axis ELSS) before March 31''],
               deadline = [Lit ''March 31 (for FY '', Lit fy, Lit '' deduction)''],
               confidence = DEFINITE,
               explanation =
                 [Lit ''Your EPF contribution of '', Rupee, INR epf, Lit '' covers only '',
                  Fixed0 (epf / LIMIT_80C * 100), Lit ''% of the '', Rupee, INR LIMIT_80C,
                  Lit '' limit. '',
                  Lit ''ELSS has the shortest lock-in (3 years) among 80C instruments '',
                  Lit ''and offers equity market returns.''],
               details = [(''epf_contribution'', Num epf),
                          (''current_80c_total'', Num current80c),
                          (''limit'', Num LIMIT_80C),
                          (''gap'', Num gap),
                          (''marginal_rate'', Num marginal),
                          (''tax_saved_component'', Num taxSaved),
                          (''recommended_instrument'',
                           Str ''ELSS (3-year lock-in, equity growth)'')]\<rparr>)"

text \<open>Check 6, \<^verbatim>\<open>checkNps\<close> (\<^verbatim>\<open>npsCheck.js\<close>).\<close>

definition checkNps :: "SalaryProfile \<Rightarrow> Finding" where
  "checkNps salary =
     (let fy = financial_year salary;
          currentNps1b = deduction_80ccd_1b salary;
          gap = max (LIMIT_80CCD_1B - currentNps1b) 0
      in if gap \<le> 0 then
           \<lparr>check_id = ''nps_check'',
            check_name = ''NPS Tax Benefit (80CCD(1B))'',
            status = OPTIMIZED,
            finding = [Lit ''NPS 80CCD(1B) fully utilized at '', Rupee, INR currentNps1b],
            savings = 0,
            action = [Lit ''No action needed''],
            deadline = [Lit ''N/A''],
            confidence = DEFINITE,
            explanation = [],
            details = [(''current_nps_1b'', Num currentNps1b),
                       (''limit_1b'', Num LIMIT_80CCD_1B),
                       (''gap'', Num 0)]\<rparr>
         else
           let oldBreakdown = computeOldRegimeTaxableIncome salary no_overrides;
               gti = ob_gross_total_income oldBreakdown;
               marginal = getMarginalRate gti ''old'' fy ''below_60'';
               taxSaved = Math_round (gap * marginal * (1 + CESS_RATE))
           in \<lparr>check_id = ''nps_check'',
               check_name = ''NPS Tax Benefit (80CCD(1B))'',
               status = OPPORTUNITY,
               finding = [Rupee, INR gap, Lit '' NPS contribution saves '', Rupee, INR taxSaved,
                          Lit '' in tax (additional to 80C)''],
               savings = taxSaved,
               action = [Lit ''Open NPS Tier 1 account and invest '', Rupee, INR gap, Lit ''. '',
                         Lit ''This is ABOVE the '', Rupee, Lit ''1.5L 80C limit''],
               deadline = [Lit ''March 31 (for FY '', Lit fy, Lit '' deduction)''],
               confidence = DEFINITE,
               explanation =
                 [Lit ''Section 80CCD(1B) provides an additional '', Rupee, INR LIMIT_80CCD_1B,
                  Lit '' '', Lit ''deduction over the 80C limit. At your '',
                  Fixed0 (marginal * 100), Lit ''% marginal rate, '',
                  Lit ''this saves '', Rupee, INR taxSaved,
                  Lit '' immediately. The trade-off: NPS is '',
                  Lit ''locked until age 60, but the tax saving is immediate.''],
               details = [(''current_nps_1b'', Num currentNps1b),
                          (''limit_1b'', Num LIMIT_80CCD_1B),
                          (''gap'', Num gap),
                          (''marginal_rate'', Num marginal),
                          (''tax_saved_component'', Num taxSaved),
                          (''note'',
                           Str ''Locked until age 60. Tax saving is immediate, but money is illiquid'')]\<rparr>)"

text \<open>
  Check 7, \<^verbatim>\<open>checkHomeLoan\<close> (\<^verbatim>\<open>homeLoanCheck.js\<close>). On a number,
  \<^verbatim>\<open>!interestPaid || interestPaid <= 0\<close> is \<open>interestPaid \<le> 0\<close>.
\<close>

definition checkHomeLoan :: "SalaryProfile \<Rightarrow> Finding" where
  "checkHomeLoan salary =
     (let interestPaid = deduction_24b salary
      in if interestPaid = 0 \<or> interestPaid \<le> 0 then
           \<lparr>check_id = ''home_loan_check'',
            check_name = ''Home Loan Interest (Section 24b)'',
            status = NOT_APPLICABLE,
            finding = [Lit ''No home loan interest declared''],
            savings = 0,
            action = [Lit ''N/A''],
            deadline = [Lit ''N/A''],
            confidence = DEFINITE,
            explanation = [],
            details = [(''home_loan_interest'', Num 0)]\<rparr>
         else
           let fy = financial_year salary;
               capped = min interestPaid LIMIT_24B_SELF_OCCUPIED;
               oldBreakdown = computeOldRegimeTaxableIncome salary no_overrides;
               gti = ob_gross_total_income oldBreakdown;
               marginal = getMarginalRate gti ''old'' fy ''below_60'';
               displaySaving = Math_round (capped * marginal * (1 + CESS_RATE))
           in \<lparr>check_id = ''home_loan_check'',
               check_name = ''Home Loan Interest (Section 24b)'',
               status = OPPORTUNITY,
               finding = [Lit ''Your '', Rupee, INR capped, Lit '' home loan interest deduction '',
                          Lit ''saves you '', Rupee, INR displaySaving, Lit '' under old regime''],
               savings = 0,
               action =
                 [Lit ''Ensure you have the home loan interest certificate from your bank. '',
                  Lit ''This benefit is captured in the regime switch recommendation''],
               deadline = [Lit ''Include in ITR filing by July 31 (FY '', Lit fy, Lit '')''],
               confidence = DEFINITE,
               explanation =
                 [Lit ''Section 24b allows deduction of home loan interest up to '',
                  Rupee, INR LIMIT_24B_SELF_OCCUPIED,
                  Lit '' per year for self-occupied property.'', newline,
                  Lit ''Your interest: '', Rupee, INR interestPaid] @
                 (if interestPaid > LIMIT_24B_SELF_OCCUPIED
                  then [Lit '' (capped at '', Rupee, INR LIMIT_24B_SELF_OCCUPIED, Lit '')'']
                  else []) @
                 [newline,
                  Lit ''At '', Fixed0 (marginal * 100), Lit ''% marginal rate: saves '', Rupee,
                  INR displaySaving, Lit '' in tax.'', newline,
                  Lit ''This deduction is only available under the old regime.''],
               details = [(''home_loan_interest'', Num interestPaid),
                          (''capped_amount'', Num capped),
                          (''limit'', Num LIMIT_24B_SELF_OCCUPIED),
                          (''marginal_rate'', Num marginal),
                          (''display_saving'', Num displaySaving),
                          (''note'', Str ''Savings included in regime arbitrage check'')]\<rparr>)"

text \<open>Check 4, \<^verbatim>\<open>checkHra\<close> (\<^verbatim>\<open>hraOptimizer.js\<close>).\<close>

definition checkHra :: "SalaryProfile \<Rightarrow> Finding" where
  "checkHra salary =
     (if hra_received salary \<le> 0 \<or> monthly_rent salary \<le> 0 then
        \<lparr>check_id = ''hra_optimizer'',
         check_name = ''HRA Exemption'',
         status = NOT_APPLICABLE,
         finding = [Lit ''No HRA received or no rent paid''],
         savings = 0,
         action = [Lit ''N/A''],
         deadline = [Lit ''N/A''],
         confidence = DEFINITE,
         explanation = [],
         details = [(''hra_received'', Num (hra_received salary)),
                    (''monthly_rent'', Num (monthly_rent salary))]\<rparr>
      else
        let rentAnnual = monthly_rent salary * 12;
            optimalExemption =
              calculateHraExemption (basic_salary salary) (hra_received salary) rentAnnual
                (is_metro salary);
            currentExemption = hra_exemption salary;
            optionA = hra_received salary;
            optionB = rentAnnual - (10 / 100) * basic_salary salary;
            metroPct = (if is_metro salary then 50 / 100 else 40 / 100);
            optionC = metroPct * basic_salary salary;
            cityType = (if is_metro salary then ''metro'' else ''non-metro'')
        in if optimalExemption \<le> 0 then
             \<lparr>check_id = ''hra_optimizer'',
              check_name = ''HRA Exemption'',
              status = NOT_APPLICABLE,
              finding = [Lit ''Rent is too low relative to basic salary for HRA benefit''],
              savings = 0,
              action = [Lit ''N/A''],
              deadline = [Lit ''N/A''],
              confidence = DEFINITE,
              explanation = [],
              details = [(''rent_annual'', Num rentAnnual),
                         (''hra_received'', Num (hra_received salary)),
                         (''optimal_exemption'', Num 0)]\<rparr>
           else if currentExemption > 0 \<and> currentExemption \<ge> optimalExemption then
             \<lparr>check_id = ''hra_optimizer'',
              check_name = ''HRA Exemption'',
              status = OPTIMIZED,
              finding = [Lit ''HRA exemption already claimed at '', Rupee, INR currentExemption],
              savings = 0,
              action = [Lit ''No action needed''],
              deadline = [Lit ''N/A''],
              confidence = DEFINITE,
              explanation = [],
              details = [(''rent_annual'', Num rentAnnual),
                         (''hra_received'', Num (hra_received salary)),
                         (''current_exemption'', Num currentExemption),
                         (''optimal_exemption'', Num optimalExemption)]\<rparr>
           else
             \<lparr>check_id = ''hra_optimizer'',
              check_name = ''HRA Exemption'',
              status = OPPORTUNITY,
              finding = [Lit ''Paying '', Rupee, INR (monthly_rent salary),
                         Lit ''/month rent but claiming '', Rupee, INR currentExemption,
                         Lit '' HRA ('', Lit (regime salary), Lit '' regime). '',
                         Lit ''Old regime unlocks '', Rupee, INR optimalExemption,
                         Lit '' exemption''],
              savings = 0,
              action = [Lit ''Collect rent receipts and landlord PAN. '',
                        Lit ''HRA benefit is captured in regime switch recommendation''],
              deadline = [Lit ''Include in ITR filing by July 31''],
              confidence = DEFINITE,
              explanation =
                [Lit ''HRA exemption = min of three amounts:'', newline,
                 Lit ''  A) Actual HRA received = '', Rupee, INR optionA, newline,
                 Lit ''  B) Rent - 10% of Basic = '', Rupee, INR optionB, newline,
                 Lit ''  C) '', Fixed0 (metroPct * 100), Lit ''% of Basic ('', Lit cityType,
                 Lit '') = '', Rupee, INR optionC, newline,
                 Lit ''  Exempt amount = '', Rupee, INR optimalExemption],
              details = [(''rent_annual'', Num rentAnnual),
                         (''hra_received'', Num (hra_received salary)),
                         (''optimal_exemption'', Num optimalExemption),
                         (''current_exemption'', Num currentExemption),
                         (''is_metro'', Bool (is_metro salary)),
                         (''option_a_hra_received'', Num optionA),
                         (''option_b_rent_minus_basic'', Num optionB),
                         (''option_c_percent_basic'', Num optionC),
                         (''note'', Str ''Savings included in regime arbitrage check'')]\<rparr>)"

text \<open>Check 3, \<^verbatim>\<open>check80d\<close> (\<^verbatim>\<open>eightyDCheck.js\<close>).\<close>

definition check80d :: "SalaryProfile \<Rightarrow> check_opts \<Rightarrow> Finding" where
  "check80d salary opts =
     (let parentsSenior' = or_false (parentsSenior opts);
          selfSenior' = or_false (selfSenior opts);
          fy = financial_year salary;
          current80d = deduction_80d salary;
          selfLimit = (if selfSenior' then LIMIT_80D_SELF_SENIOR else LIMIT_80D_SELF_BELOW_60);
          parentsLimit = (if parentsSenior' then LIMIT_80D_PARENTS_SENIOR
                          else LIMIT_80D_PARENTS_BELOW_60);
          totalLimit = selfLimit + parentsLimit
      in if current80d \<ge> totalLimit then
           \<lparr>check_id = ''80d_check'',
            check_name = ''Health Insurance (Section 80D)'',
            status = OPTIMIZED,
            finding = [Lit ''80D fully utilized at '', Rupee, INR current80d],
            savings = 0,
            action = [Lit ''No action needed''],
            deadline = [Lit ''N/A''],
            confidence = DEFINITE,
            explanation = [],
            details = [(''self_family_claimed'', Num current80d),
                       (''self_family_limit'', Num selfLimit),
                       (''parents_limit'', Num parentsLimit),
                       (''total_limit'', Num totalLimit)]\<rparr>
         else
           let additional80d = totalLimit - current80d;
               parentsCase = (current80d = 0);
               recommendedPremium = (if parentsCase then parentsLimit else additional80d);
               oldBreakdown = computeOldRegimeTaxableIncome salary no_overrides;
               gti = ob_gross_total_income oldBreakdown;
               marginal = getMarginalRate gti ''old'' fy ''below_60'';
               taxSaved = Math_round (recommendedPremium * marginal * (1 + CESS_RATE));
               findingText =
                 (if parentsCase then
                    [Lit ''Parents have no health insurance. '', Rupee, INR recommendedPremium,
                     Lit '' policy = '', Rupee, INR taxSaved, Lit '' tax saving'']
                  else
                    [Rupee, INR additional80d, Lit '' additional 80D deduction available'']);
               actionText =
                 (if parentsCase then
                    [Lit ''Buy a '', Rupee,
                     Lit ''5-10L family floater health insurance for parents '',
                     Lit ''(annual premium ~'', Rupee, Lit ''20-25K). Claim under Section 80D'']
                  else
                    [Lit ''Increase health insurance coverage to claim additional '',
                     Rupee, INR additional80d, Lit '' under 80D''])
           in \<lparr>check_id = ''80d_check'',
               check_name = ''Health Insurance (Section 80D)'',
               status = OPPORTUNITY,
               finding = findingText,
               savings = taxSaved,
               action = actionText,
               deadline = [Lit ''March 31 (for FY '', Lit fy, Lit '' deduction)''],
               confidence = DEFINITE,
               explanation =
                 [Lit ''Section 80D allows deduction for health insurance premiums: '',
                  Lit ''up to '', Rupee, INR selfLimit, Lit '' for self/family and '',
                  Rupee, INR parentsLimit, Lit '' for parents. '',
                  Lit ''A family floater for parents costs ~'', Rupee,
                  Lit ''25K/year and the effective '',
                  Lit ''cost after tax saving is only '', Rupee,
                  INR (recommendedPremium - taxSaved), Lit ''.''],
               details = [(''self_family_claimed'', Num current80d),
                          (''self_family_limit'', Num selfLimit),
                          (''parents_claimed'', Num 0),
                          (''parents_limit'', Num parentsLimit),
                          (''parents_senior'', Bool parentsSenior'),
                          (''recommended_premium'', Num recommendedPremium),
                          (''marginal_rate'', Num marginal),
                          (''tax_saved_component'', Num taxSaved)]\<rparr>)"

text \<open>
  Check 1, \<^verbatim>\<open>checkRegime\<close> (\<^verbatim>\<open>regimeComparator.js\<close>). The object
  \<^verbatim>\<open>deductionsNeeded\<close> gets its properties one conditional assignment after the other.
\<close>

definition checkRegime :: "SalaryProfile \<Rightarrow> check_opts \<Rightarrow> Finding" where
  "checkRegime salary opts =
     (let parentsSenior' = or_false (parentsSenior opts);
          selfSenior' = or_false (selfSenior opts);
          ageCategory = (if selfSenior' then ''senior'' else ''below_60'');
          fy = financial_year salary;
          newTaxable = computeNewRegimeTaxableIncome salary;
          newTaxResult = calculateNewRegimeTax newTaxable fy;
          newTax = total_tax newTaxResult;
          optimalHra =
            (if hra_received salary > 0 \<and> monthly_rent salary > 0 then
               calculateHraExemption (basic_salary salary) (hra_received salary)
                 (monthly_rent salary * 12) (is_metro salary)
             else 0);
          optimal80c = LIMIT_80C;
          selfLimit = (if selfSenior' then LIMIT_80D_SELF_SENIOR else LIMIT_80D_SELF_BELOW_60);
          parentsLimit = (if parentsSenior' then LIMIT_80D_PARENTS_SENIOR
                          else LIMIT_80D_PARENTS_BELOW_60);
          optimal80dTarget = (if selfSenior' then selfLimit + parentsLimit else parentsLimit);
          optimal80d = max (deduction_80d salary) optimal80dTarget;
          optimalNps1b = LIMIT_80CCD_1B;
          optimal24b = min (deduction_24b salary) LIMIT_24B_SELF_OCCUPIED;
          oldBreakdown =
            computeOldRegimeTaxableIncome salary
              \<lparr>hraExemption = Some optimalHra,
               total80c = Some optimal80c,
               total80d = Some optimal80d,
               total80ccd1b = Some optimalNps1b,
               total24b = Some optimal24b\<rparr>;
          oldTaxable = ob_taxable_income oldBreakdown;
          oldTaxResult = calculateOldRegimeTax oldTaxable fy ageCategory;
          oldTax = total_tax oldTaxResult;
          savings' = newTax - oldTax;
          recommended = (if savings' > 0 then ''old'' else ''new'');
          current80c = deduction_80c salary + deduction_80ccc salary + deduction_80ccd_1 salary;
          gap80c = LIMIT_80C - current80c;
          deductionsNeeded =
            (if optimalHra > hra_exemption salary then [(''hra_exemption'', Num optimalHra)]
             else []) @
            (if gap80c > 0
             then [(''section_80c'', Num optimal80c), (''section_80c_gap'', Num gap80c)]
             else []) @
            (if optimal80d > deduction_80d salary then [(''section_80d'', Num optimal80d)]
             else []) @
            (if optimalNps1b > deduction_80ccd_1b salary
             then [(''section_80ccd_1b'', Num optimalNps1b)]
             else []) @
            (if optimal24b > 0 then [(''section_24b'', Num optimal24b)] else [])
      in if savings' > 0 then
           \<lparr>check_id = ''regime_arbitrage'',
            check_name = ''Tax Regime Optimization'',
            status = OPPORTUNITY,
            finding = [Lit ''Switching to old regime with full deductions saves '', Rupee,
                       INR savings'],
            savings = savings',
            action = [Lit ''File ITR under old tax regime for FY '', Lit fy, Lit ''. '',
                      Lit ''Invest in ELSS/PPF for 80C, get parents' health insurance for 80D, '',
                      Lit ''and open NPS for 80CCD(1B) before March 31''],
            deadline = [Lit ''July 31 (ITR filing) '', Emdash,
                        Lit '' but investments needed before March 31''],
            confidence = DEFINITE,
            explanation =
              [Lit ''Your employer applied the new regime (default), resulting in tax of '',
               Rupee, INR newTax, Lit ''. Under the old regime with optimized deductions '',
               Lit ''(HRA '', Rupee, INR optimalHra, Lit '' + 80C '', Rupee, INR optimal80c,
               Lit '' + '', Lit ''80D '', Rupee, INR optimal80d, Lit '' + NPS '', Rupee,
               INR optimalNps1b] @
              (if optimal24b > 0 then [Lit '' + Home Loan '', Rupee, INR optimal24b] else []) @
              [Lit ''), your tax drops to '', Rupee, INR oldTax, Lit ''.''],
            details = [(''new_regime_tax'', Num newTax),
                       (''new_regime_taxable'', Num newTaxable),
                       (''old_regime_tax'', Num oldTax),
                       (''old_regime_taxable'', Num oldTaxable),
                       (''recommended_regime'', Str recommended),
                       (''old_regime_breakdown'', old_breakdown_obj oldBreakdown),
                       (''deductions_needed'', Obj deductionsNeeded)]\<rparr>
         else
           \<lparr>check_id = ''regime_arbitrage'',
            check_name = ''Tax Regime Optimization'',
            status = OPTIMIZED,
            finding = [Lit ''New regime is already optimal (saves '', Rupee, INR (- savings'),
                       Lit '' vs old)''],
            savings = 0,
            action = [Lit ''No action needed '', Emdash, Lit '' continue with new regime''],
            deadline = [Lit ''N/A''],
            confidence = DEFINITE,
            explanation =
              [Lit ''New regime tax: '', Rupee, INR newTax, Lit ''. '',
               Lit ''Old regime tax (even with optimized deductions): '', Rupee, INR oldTax,
               Lit ''. '',
               Lit ''New regime is better by '', Rupee, INR (- savings'), Lit ''.''],
            details = [(''new_regime_tax'', Num newTax),
                       (''new_regime_taxable'', Num newTaxable),
                       (''old_regime_tax'', Num oldTax),
                       (''old_regime_taxable'', Num oldTaxable),
                       (''recommended_regime'', Str recommended),
                       (''old_regime_breakdown'', old_breakdown_obj oldBreakdown)]\<rparr>)"

text \<open>
  Check 5, \<^verbatim>\<open>checkCapitalGains\<close> (\<^verbatim>\<open>ltcgScanner.js\<close>). The check reads the clock
  (\<^verbatim>\<open>new Date()\<close>) when no reference date is passed: the clock is the parameter \<open>today\<close>.

  The first loop over the holdings fills three arrays; \<open>cg_step\<close> is its body and the
  state is \<open>(ltcgHoldings, stcgHoldings, holdingPeriodAlerts)\<close>.
\<close>

record cg_opts =
  asOf :: "date option"

record ltcg_entry =
  lt_name :: string
  lt_gain :: rat
  lt_months :: int
  lt_cost :: rat
  lt_value :: rat

record stcg_entry =
  st_name :: string
  st_gain :: rat
  st_months :: int
  st_months_to_ltcg :: int
  st_cost :: rat
  st_value :: rat

definition cg_step ::
  "date \<Rightarrow> ltcg_entry list \<times> stcg_entry list \<times> jsval list \<Rightarrow> Holding \<Rightarrow>
   ltcg_entry list \<times> stcg_entry list \<times> jsval list" where
  "cg_step asOf' st h =
     (case st of
        (ltcgHoldings, stcgHoldings, holdingPeriodAlerts) \<Rightarrow>
          let months = holdingMonths h asOf';
              gain = unrealized_gain h;
              isLt = isLongTerm h asOf'
          in if isLt \<and> gain > 0 then
               (ltcgHoldings @
                  [\<lparr>lt_name = security_name h, lt_gain = gain, lt_months = months,
                    lt_cost = total_cost h, lt_value = current_value h\<rparr>],
                stcgHoldings, holdingPeriodAlerts)
             else if \<not> isLt then
               (ltcgHoldings,
                stcgHoldings @
                  [\<lparr>st_name = security_name h, st_gain = gain, st_months = months,
                    st_months_to_ltcg = (if months < 13 then 13 - months else 0),
                    st_cost = total_cost h, st_value = current_value h\<rparr>],
                if months \<ge> 10 \<and> months \<le> 12 \<and> gain > 0 then
                  holdingPeriodAlerts @
                    [Obj [(''security'', Str (security_name h)),
                          (''months_held'', Num (of_int months)),
                          (''months_to_ltcg'', Num (of_int (13 - months))),
                          (''gain'', Num gain),
                          (''stcg_tax'', Num (Math_round (gain * STCG_RATE * (1 + CESS_RATE)))),
                          (''advice'',
                           Prose [Lit ''Wait '', NumStr (of_int (13 - months)),
                                  Lit '' month(s) before selling to '',
                                  Lit ''qualify for LTCG rate (12.5% vs 20%)''])]]
                else holdingPeriodAlerts)
             else (ltcgHoldings, stcgHoldings, holdingPeriodAlerts))"

text \<open>\<^verbatim>\<open>names.join(', ')\<close>.\<close>

fun join_comma :: "string list \<Rightarrow> string" where
  "join_comma [] = []"
| "join_comma [x] = x"
| "join_comma (x # y # ys) = x @ '', '' @ join_comma (y # ys)"

text \<open>The second loop: one entry for every holding at a loss.\<close>

definition loss_entries :: "date \<Rightarrow> Holding list \<Rightarrow> jsval list" where
  "loss_entries asOf' hs =
     map (\<lambda>h. Obj [(''name'', Str (security_name h)),
                   (''loss'', Num \<bar>unrealized_gain h\<bar>),
                   (''is_long_term'', Bool (isLongTerm h asOf'))])
       (filter (\<lambda>h. unrealized_gain h < 0) hs)"

definition checkCapitalGains :: "date \<Rightarrow> Holdings \<Rightarrow> cg_opts \<Rightarrow> Finding" where
  "checkCapitalGains today hold opts =
     (let asOf' =
            (case asOf opts of
               Some d \<Rightarrow> d
             | None \<Rightarrow>
                 if month today < 3 then \<lparr>year = year today, month = 2, day = 31\<rparr>
                 else \<lparr>year = year today + 1, month = 2, day = 31\<rparr>)
      in if length (holdings hold) = 0 then
           \<lparr>check_id = ''capital_gains'',
            check_name = ''Capital Gains Optimization'',
            status = NOT_APPLICABLE,
            finding = [Lit ''No investment holdings to analyze''],
            savings = 0,
            action = [Lit ''N/A''],
            deadline = [Lit ''N/A''],
            confidence = DEFINITE,
            explanation = [],
            details = []\<rparr>
         else
           (case foldl (cg_step asOf') ([], [], []) (holdings hold) of
              (ltcgHoldings, stcgHoldings, holdingPeriodAlerts) \<Rightarrow>
                let totalUnrealizedLtcg = foldl (\<lambda>sum h. sum + lt_gain h) 0 ltcgHoldings;
                    totalUnrealizedStcg =
                      foldl (\<lambda>sum h. sum + st_gain h) 0
                        (filter (\<lambda>h. st_gain h > 0) stcgHoldings);
                    exemptionRemaining = max (LTCG_EXEMPTION - realized_ltcg_this_fy hold) 0;
                    harvestableLtcg = min totalUnrealizedLtcg exemptionRemaining;
                    futureTaxSaved = Math_round (harvestableLtcg * LTCG_RATE * (1 + CESS_RATE));
                    holdingsToHarvest = map lt_name (filter (\<lambda>h. lt_gain h > 0) ltcgHoldings);
                    unrealizedLosses = loss_entries asOf' (holdings hold)
                in if harvestableLtcg \<le> 0 \<and> length holdingPeriodAlerts = 0 then
                     \<lparr>check_id = ''capital_gains'',
                      check_name = ''Capital Gains Optimization'',
                      status = OPTIMIZED,
                      finding = [Lit ''No harvestable LTCG or holding period optimizations found''],
                      savings = 0,
                      action = [Lit ''No action needed''],
                      deadline = [Lit ''N/A''],
                      confidence = DEFINITE,
                      explanation = [],
                      details = [(''unrealized_ltcg'', Num totalUnrealizedLtcg),
                                 (''unrealized_stcg'', Num totalUnrealizedStcg),
                                 (''ltcg_exemption_limit'', Num LTCG_EXEMPTION)]\<rparr>
                   else
                     let action' =
                           (if length holdingsToHarvest > 0 then
                              [Lit ''Before March 31: Sell '', Lit (join_comma holdingsToHarvest),
                               Lit ''. '',
                               Lit ''Immediately repurchase. This resets cost basis and uses '',
                               Lit ''your '', Rupee, Fixed0 (LTCG_EXEMPTION / 1000),
                               Lit ''K annual LTCG exemption'']
                            else [Lit ''Monitor holdings for LTCG harvesting opportunity'']);
                         details' =
                           [(''unrealized_ltcg'', Num totalUnrealizedLtcg),
                            (''unrealized_stcg'', Num totalUnrealizedStcg),
                            (''realized_ltcg_this_fy'', Num (realized_ltcg_this_fy hold)),
                            (''ltcg_exemption_limit'', Num LTCG_EXEMPTION),
                            (''exemption_used'', Num harvestableLtcg),
                            (''exemption_remaining'', Num (exemptionRemaining - harvestableLtcg)),
                            (''future_tax_saved'', Num futureTaxSaved),
                            (''holdings_to_harvest'', Arr (map Str holdingsToHarvest))] @
                           (if length holdingPeriodAlerts > 0
                            then [(''holding_period_alerts'', Arr holdingPeriodAlerts)]
                            else []) @
                           (if length unrealizedLosses > 0
                            then [(''unrealized_losses'', Arr unrealizedLosses)]
                            else [])
                     in \<lparr>check_id = ''capital_gains'',
                         check_name = ''Capital Gains Optimization'',
                         status = OPPORTUNITY,
                         finding = [Rupee, INR totalUnrealizedLtcg,
                                    Lit '' unrealized LTCG can be '',
                                    Lit ''harvested tax-free. Saves '', Rupee, INR futureTaxSaved,
                                    Lit '' in future taxes''],
                         savings = futureTaxSaved,
                         action = action',
                         deadline = [Lit ''March 31 (end of financial year)''],
                         confidence = DEFINITE,
                         explanation =
                           [Lit ''You have '', Rupee, INR totalUnrealizedLtcg,
                            Lit '' in unrealized long-term '',
                            Lit ''capital gains, well under the '', Rupee, INR LTCG_EXEMPTION,
                            Lit '' annual exemption. '',
                            Lit ''By selling and immediately repurchasing (legal in India '',
                            Emdash, Lit '' no wash sale rule), '',
                            Lit ''you reset your cost basis higher and avoid 12.5% tax on these gains in the future.''],
                         details = details'\<rparr>))"

subsection \<open>The orchestrator, \<^verbatim>\<open>runAllChecks\<close>\<close>

text \<open>\<^verbatim>\<open>lines.join('\n')\<close>.\<close>

fun join_lines :: "prose list \<Rightarrow> prose" where
  "join_lines [] = []"
| "join_lines [l] = l"
| "join_lines (l # m # ls) = l @ [newline] @ join_lines (m # ls)"

definition generateSummary :: "SalaryProfile \<Rightarrow> Finding list \<Rightarrow> rat \<Rightarrow> string \<Rightarrow> prose" where
  "generateSummary salary cs totalSavings recommendedRegime =
     (let opportunities = filter (\<lambda>c. status c = OPPORTUNITY) cs;
          lines =
            (if totalSavings > 0 then
               [[Lit ''TaxHawk found '', Rupee, INR totalSavings,
                 Lit '' in potential tax savings '',
                 Lit ''for '', Lit (employee_name salary), Lit '' (FY '',
                 Lit (financial_year salary), Lit '').'']] @
               (if recommendedRegime = ''old'' \<and> regime salary = ''new'' then
                  [[Lit ''The biggest opportunity: switching from the new tax regime '',
                    Lit ''(employer default) to the old regime with optimized deductions.'']]
                else []) @
               (if length opportunities > 0 then
                  [[newline, NumStr (of_nat (length opportunities)),
                    Lit '' optimization(s) found:'']] @
                  map (\<lambda>opp. [Lit ''  - '', Lit (check_name opp), Lit '': '', Rupee,
                              INR (savings opp)])
                    (filter (\<lambda>opp. savings opp > 0) opportunities)
                else [])
             else
               [[Lit ''Your tax setup is already well-optimized for FY '',
                 Lit (financial_year salary), Lit ''. '',
                 Lit ''No significant savings opportunities found.'']])
      in join_lines lines)"

text \<open>
  The options of \<^verbatim>\<open>runAllChecks\<close> are those of the checks and the reference date of the
  capital gains check. A caller may set \<open>selfSenior\<close> (the interface lists it); the
  function never reads it.
\<close>

record run_opts = check_opts +
  cgAsOf :: "date option"

text \<open>
  The body of the loop over the deduction checks when the new regime is recommended. The
  source writes through the very objects that \<^verbatim>\<open>allChecks\<close> holds; the model returns the
  updated finding.
\<close>

definition suppress :: "Finding \<Rightarrow> Finding" where
  "suppress c =
     (let oldSavings = savings c
      in c\<lparr>savings := 0,
           status := NOT_APPLICABLE,
           finding :=
             (if oldSavings > 0 then
                [Lit ''Not applicable under new regime '',
                 Lit ''(would save '', Rupee, INR oldSavings, Lit '' under old regime)'']
              else finding c)\<rparr>)"

text \<open>
  \<^verbatim>\<open>regimeResult.details.recommended_regime || 'new'\<close>: the property when it is a string
  that is not empty, \<^verbatim>\<open>'new'\<close> when it is absent or empty. (The regime check only ever
  stores a string there.)
\<close>

definition recommended_or_new :: "Finding \<Rightarrow> string" where
  "recommended_or_new f =
     (case map_of (details f) ''recommended_regime'' of
        Some (Str s) \<Rightarrow> if s = [] then ''new'' else s
      | _ \<Rightarrow> ''new'')"

text \<open>
  \<^verbatim>\<open>allChecks.sort((a, b) => b.savings - a.savings)\<close> is a stable sort on the savings, the
  largest first: \<^const>\<open>sort_key\<close> (insertion sort, stable) on the negated savings.
\<close>

definition runAllChecks :: "date \<Rightarrow> SalaryProfile \<Rightarrow> Holdings option \<Rightarrow> run_opts \<Rightarrow> Report" where
  "runAllChecks today salary holdings' opts =
     (let parentsSenior' = or_false (parentsSenior opts);
          cgAsOf' = cgAsOf opts;
          hold = (case holdings' of None \<Rightarrow> empty_holdings | Some h \<Rightarrow> h);
          regimeResult =
            checkRegime salary \<lparr>parentsSenior = Some parentsSenior', selfSenior = None\<rparr>;
          result80c = check80c salary;
          result80d =
            check80d salary \<lparr>parentsSenior = Some parentsSenior', selfSenior = None\<rparr>;
          resultHra = checkHra salary;
          resultCg = checkCapitalGains today hold \<lparr>asOf = cgAsOf'\<rparr>;
          resultNps = checkNps salary;
          resultHomeLoan = checkHomeLoan salary;
          recommendedRegime = recommended_or_new regimeResult;
          allChecks =
            (if recommendedRegime = ''new'' then
               [regimeResult, suppress result80c, suppress result80d, suppress resultHra,
                resultCg, suppress resultNps, suppress resultHomeLoan]
             else
               [regimeResult, result80c, result80d, resultHra, resultCg, resultNps,
                resultHomeLoan]);
          totalSavings = savings regimeResult + savings resultCg;
          sorted' = sort_key (\<lambda>c. - savings c) allChecks;
          summary' = generateSummary salary sorted' totalSavings recommendedRegime
      in createTaxHawkResult (employee_name salary) (financial_year salary) (regime salary)
           recommendedRegime totalSavings sorted' summary')"

subsection \<open>The redemption planner, \<^verbatim>\<open>computeRedemptionTax\<close>\<close>

text \<open>
  \<open>None\<close> is \<^verbatim>\<open>null\<close> or \<^verbatim>\<open>undefined\<close>: \<^verbatim>\<open>plannedLtcg || 0\<close> and
  \<^verbatim>\<open>opts.exemptionRemaining ?? LTCG_EXEMPTION\<close> replace it.
\<close>

record redemption_opts =
  exemptionRemaining :: "rat option"
  exemptionNextFy :: "rat option"

record one_fy_result =
  taxable :: rat
  tax :: rat
  effective_rate :: rat
  exemption_used :: rat

record split_fy_result =
  sell_fy1 :: rat
  tax_fy1 :: rat
  sell_fy2 :: rat
  taxable_fy2 :: rat
  tax_fy2 :: rat
  split_total_tax :: rat
  split_effective_rate :: rat

record redemption =
  planned_ltcg :: rat
  one_fy :: one_fy_result
  split_fy :: split_fy_result
  split_beneficial :: bool
  split_savings :: rat
  exemption_remaining :: rat
  exemption_next_fy :: rat

definition computeRedemptionTax :: "rat option \<Rightarrow> redemption_opts \<Rightarrow> redemption" where
  "computeRedemptionTax plannedLtcg opts =
     (let ltcg = max (case plannedLtcg of Some v \<Rightarrow> v | None \<Rightarrow> 0) 0;
          exemptionRemaining' =
            (case exemptionRemaining opts of Some v \<Rightarrow> v | None \<Rightarrow> LTCG_EXEMPTION);
          exemptionNextFy' =
            (case exemptionNextFy opts of Some v \<Rightarrow> v | None \<Rightarrow> LTCG_EXEMPTION);
          taxRate = LTCG_RATE * (1 + CESS_RATE);
          oneFyTaxable = max (ltcg - exemptionRemaining') 0;
          oneFyTax = Math_round (oneFyTaxable * taxRate);
          oneFyEffective = (if ltcg > 0 then oneFyTax / ltcg else 0);
          sellFy1 = min ltcg exemptionRemaining';
          taxFy1 = 0;
          remainingAfterFy1 = ltcg - sellFy1;
          taxableFy2 = max (remainingAfterFy1 - exemptionNextFy') 0;
          taxFy2 = Math_round (taxableFy2 * taxRate);
          splitTotalTax = taxFy1 + taxFy2;
          splitEffective = (if ltcg > 0 then splitTotalTax / ltcg else 0);
          splitSavings = oneFyTax - splitTotalTax
      in \<lparr>planned_ltcg = ltcg,
          one_fy = \<lparr>taxable = oneFyTaxable,
                    tax = oneFyTax,
                    effective_rate = oneFyEffective,
                    exemption_used = min ltcg exemptionRemaining'\<rparr>,
          split_fy = \<lparr>sell_fy1 = sellFy1,
                      tax_fy1 = taxFy1,
                      sell_fy2 = remainingAfterFy1,
                      taxable_fy2 = taxableFy2,
                      tax_fy2 = taxFy2,
                      split_total_tax = splitTotalTax,
                      split_effective_rate = splitEffective\<rparr>,
          split_beneficial = (splitSavings > 0),
          split_savings = splitSavings,
          exemption_remaining = exemptionRemaining',
          exemption_next_fy = exemptionNextFy'\<rparr>)"

text \<open>Looking a finding up in a report by its \<^verbatim>\<open>check_id\<close>, as the tests do.\<close>

definition by_id :: "string \<Rightarrow> Finding list \<Rightarrow> Finding option" where
  "by_id cid cs = find (\<lambda>c. check_id c = cid) cs"

text \<open>
  The slab table of a regime, a financial year and an age category: the selection that
  \<^verbatim>\<open>getMarginalRate\<close>, \<^verbatim>\<open>calculateNewRegimeTax\<close> and \<^verbatim>\<open>calculateOldRegimeTax\<close> each
  write out (see \<open>regime_slabs_marginal\<close>, \<open>regime_slabs_new\<close> and \<open>regime_slabs_old\<close>
  below).
\<close>

definition regime_slabs :: "string \<Rightarrow> string \<Rightarrow> string \<Rightarrow> slab list" where
  "regime_slabs rg fy ageCategory =
     (if rg = ''new'' then
        (if fy = ''2025-26'' then NEW_REGIME_SLABS_FY2025_26 else NEW_REGIME_SLABS_FY2024_25)
      else if ageCategory = ''super_senior'' then OLD_REGIME_SLABS_SUPER_SENIOR
      else if ageCategory = ''senior'' then OLD_REGIME_SLABS_SENIOR
      else OLD_REGIME_SLABS_BELOW_60)"

subsection \<open>Sample inputs\<close>

text \<open>
  The profile of \<^verbatim>\<open>data/demoProfile.js\<close> as \<^verbatim>\<open>createSalaryProfile\<close> fills it in (the
  fields the data leaves out are 0).
\<close>

definition PRIYA_PROFILE :: SalaryProfile where
  "PRIYA_PROFILE =
     \<lparr>financial_year = ''2024-25'',
      employee_name = ''Priya Sharma'',
      pan = ''ABCPS1234D'',
      employer_name = ''TechVista Solutions Pvt Ltd'',
      gross_salary = 1500000,
      basic_salary = 600000,
      hra_received = 300000,
      special_allowance = 600000,
      lta = 0,
      bonus = 0,
      other_salary = 0,
      hra_exemption = 0,
      lta_exemption = 0,
      other_exemptions = 0,
      standard_deduction = 75000,
      professional_tax = 2400,
      deduction_80c = 72000,
      deduction_80ccc = 0,
      deduction_80ccd_1 = 0,
      deduction_80ccd_1b = 0,
      deduction_80ccd_2 = 0,
      deduction_80d = 0,
      deduction_80e = 0,
      deduction_80g = 0,
      deduction_80tta = 0,
      deduction_24b = 0,
      other_deductions = 0,
      taxable_income = 1422600,
      tax_payable = 0,
      cess = 0,
      total_tax_paid = 129501,
      regime = ''new'',
      city = ''mumbai'',
      monthly_rent = 25000,
      epf_employee_contribution = 72000\<rparr>"

text \<open>
  The profile of the test \<^verbatim>\<open>low salary -> new regime wins\<close> of
  \<^verbatim>\<open>orchestrator.test.js\<close>, as \<^verbatim>\<open>createSalaryProfile\<close> fills it in.
\<close>

definition LOW_EARNER :: SalaryProfile where
  "LOW_EARNER =
     \<lparr>financial_year = ''2024-25'',
      employee_name = ''Low Earner'',
      pan = '''',
      employer_name = '''',
      gross_salary = 600000,
      basic_salary = 300000,
      hra_received = 0,
      special_allowance = 0,
      lta = 0,
      bonus = 0,
      other_salary = 0,
      hra_exemption = 0,
      lta_exemption = 0,
      other_exemptions = 0,
      standard_deduction = 0,
      professional_tax = 2400,
      deduction_80c = 0,
      deduction_80ccc = 0,
      deduction_80ccd_1 = 0,
      deduction_80ccd_1b = 0,
      deduction_80ccd_2 = 0,
      deduction_80d = 0,
      deduction_80e = 0,
      deduction_80g = 0,
      deduction_80tta = 0,
      deduction_24b = 0,
      other_deductions = 0,
      taxable_income = 0,
      tax_payable = 0,
      cess = 0,
      total_tax_paid = 0,
      regime = ''new'',
      city = ''mumbai'',
      monthly_rent = 0,
      epf_employee_contribution = 0\<rparr>"

text \<open>Options with nothing set, \<^verbatim>\<open>{}\<close>, and a date for the clock.\<close>

definition no_opts :: run_opts where
  "no_opts = \<lparr>parentsSenior = None, selfSenior = None, cgAsOf = None\<rparr>"

definition a_day :: date where
  "a_day = \<lparr>year = 2025, month = 0, day = 15\<rparr>"

text \<open>
  Holdings. The first is the synthetic portfolio that \<^verbatim>\<open>estimateLTCG\<close> builds for the
  range \<^verbatim>\<open>50k_to_125k\<close>, with its purchase date (1 January 2023) as a local date. The
  second is one listed share bought in April 2024 with a gain of 5000, which on 31 March
  2025 has been held for eleven months.
\<close>

definition ESTIMATED_HOLDINGS :: Holdings where
  "ESTIMATED_HOLDINGS =
     \<lparr>holdings =
        [\<lparr>security_name = ''Your stock/MF portfolio (estimated)'',
          security_type = ''equity_mf'',
          purchase_date = \<lparr>year = 2023, month = 0, day = 1\<rparr>,
          purchase_price = 0,
          quantity = 1,
          current_price = 87500\<rparr>],
      realized_stcg_this_fy = 0,
      realized_ltcg_this_fy = 0\<rparr>"

definition RECENT_HOLDINGS :: Holdings where
  "RECENT_HOLDINGS =
     \<lparr>holdings =
        [\<lparr>security_name = ''Recent share'',
          security_type = ''equity_share'',
          purchase_date = \<lparr>year = 2024, month = 3, day = 10\<rparr>,
          purchase_price = 100,
          quantity = 50,
          current_price = 200\<rparr>],
      realized_stcg_this_fy = 0,
      realized_ltcg_this_fy = 0\<rparr>"

definition fy_end_2025 :: date where
  "fy_end_2025 = \<lparr>year = 2025, month = 2, day = 31\<rparr>"

section \<open>Properties\<close>

subsection \<open>Rounding\<close>

lemma Math_round_of_int: "Math_round (of_int n) = of_int n"
proof -
  have "\<lfloor>(of_int n :: rat) + 1 / 2\<rfloor> = n" by linarith
  then show ?thesis by (simp add: Math_round_def)
qed

lemma Math_round_mono: "x \<le> y \<Longrightarrow> Math_round x \<le> Math_round y"
  by (simp add: Math_round_def floor_mono)

lemma Math_round_zero: "Math_round 0 = 0"
  using Math_round_of_int [of 0] by simp

lemma Math_round_nonneg: "0 \<le> x \<Longrightarrow> 0 \<le> Math_round x"
  using Math_round_mono [of 0 x] by (simp add: Math_round_zero)

lemma Math_round_numeral: "Math_round (numeral k) = numeral k"
  using Math_round_of_int [of "numeral k"] by simp

lemma Math_round_frac:
  "Math_round (numeral a / numeral b) = of_int ((2 * numeral a + numeral b) div (2 * numeral b))"
proof -
  have "(numeral a / numeral b :: rat) + 1 / 2 =
        of_int (2 * numeral a + numeral b) / of_int (2 * numeral b)"
    by (simp add: field_simps)
  then show ?thesis
    unfolding Math_round_def by (simp only: floor_divide_of_int_eq)
qed

lemma Math_round_le: "Math_round x \<le> x + 1 / 2"
  unfolding Math_round_def by linarith

lemma Math_round_pos_iff: "0 < Math_round x \<longleftrightarrow> 1 / 2 \<le> x"
proof -
  have a: "0 < \<lfloor>x + 1 / 2\<rfloor> \<longleftrightarrow> 1 \<le> x + 1 / 2" by (rule zero_less_floor)
  have b: "1 \<le> x + 1 / 2 \<longleftrightarrow> 1 / 2 \<le> x" by linarith
  show ?thesis by (simp only: Math_round_def of_int_0_less_iff a b)
qed

lemma Math_round_small: "0 \<le> x \<Longrightarrow> x < 1 / 2 \<Longrightarrow> Math_round x = 0"
proof -
  assume "0 \<le> x" "x < 1 / 2"
  then have "\<lfloor>x + 1 / 2\<rfloor> = 0" by linarith
  then show ?thesis by (simp add: Math_round_def)
qed

subsection \<open>Scenario S5\<close>

text \<open>
  Claim C7. Scenario S5, surcharge marginal relief at 51 lakh: the old regime calculator
  at a taxable income of 5100000, financial year 2024-25, below 60, returns base tax
  1342500, surcharge 70000 (marginal relief; the raw ten per cent of the tax would be
  134250), cess 56500 and total tax 1469000.
\<close>

theorem C7_scenario_S5:
  "base_tax (calculateOldRegimeTax 5100000 ''2024-25'' ''below_60'') = 1342500 \<and>
   surcharge (calculateOldRegimeTax 5100000 ''2024-25'' ''below_60'') = 70000 \<and>
   tax_after_rebate (calculateOldRegimeTax 5100000 ''2024-25'' ''below_60'') * (10 / 100)
     = 134250 \<and>
   tb_cess (calculateOldRegimeTax 5100000 ''2024-25'' ''below_60'') = 56500 \<and>
   total_tax (calculateOldRegimeTax 5100000 ''2024-25'' ''below_60'') = 1469000"
  by code_simp

subsection \<open>The HRA formula\<close>

text \<open>
  Claim C6 as stated fails: with no rent paid the amount B (rent less ten per cent of the
  basic salary) is negative, and the exemption, which is never below zero, exceeds it.
  At basic 600000, HRA received 300000 and rent 0 the exemption is 0 and B is -60000.
\<close>

theorem C6_hra_exceeds_negative_B:
  "calculateHraExemption 600000 300000 0 True = 0 \<and>
   0 - HRA_RENT_MINUS_BASIC_PERCENT * 600000 = (- 60000 :: rat) \<and>
   \<not> calculateHraExemption 600000 300000 0 True \<le> 0 - HRA_RENT_MINUS_BASIC_PERCENT * 600000"
  by code_simp

text \<open>
  Claim C6, amended. For basic salary, HRA received and annual rent that are not negative,
  and either metro flag, the HRA exemption is never negative, never exceeds A (the HRA
  received) or C (50 or 40 per cent of the basic salary), and never exceeds B (rent less
  ten per cent of the basic salary) unless B is negative: it is at most \<open>max B 0\<close>.
\<close>

theorem C6_hra_bounds:
  assumes "0 \<le> basicAnnual" and "0 \<le> hraReceivedAnnual" and "0 \<le> rentPaidAnnual"
  shows "0 \<le> calculateHraExemption basicAnnual hraReceivedAnnual rentPaidAnnual isMetro \<and>
         calculateHraExemption basicAnnual hraReceivedAnnual rentPaidAnnual isMetro
           \<le> hraReceivedAnnual \<and>
         calculateHraExemption basicAnnual hraReceivedAnnual rentPaidAnnual isMetro
           \<le> max (rentPaidAnnual - HRA_RENT_MINUS_BASIC_PERCENT * basicAnnual) 0 \<and>
         calculateHraExemption basicAnnual hraReceivedAnnual rentPaidAnnual isMetro
           \<le> (if isMetro then HRA_METRO_PERCENT else HRA_NON_METRO_PERCENT) * basicAnnual"
  using assms
  by (auto simp: calculateHraExemption_def Let_def HRA_METRO_PERCENT_def
      HRA_NON_METRO_PERCENT_def HRA_RENT_MINUS_BASIC_PERCENT_def min_def max_def)

theorem C6_hra_bounds_witness:
  "(0::rat) \<le> 600000 \<and> (0::rat) \<le> 300000 \<and>
   calculateHraExemption 600000 300000 300000 True = 240000 \<and>
   0 \<le> calculateHraExemption 600000 300000 300000 True \<and>
   calculateHraExemption 600000 300000 300000 True \<le> 300000 \<and>
   calculateHraExemption 600000 300000 300000 True
     \<le> max (300000 - HRA_RENT_MINUS_BASIC_PERCENT * 600000) 0 \<and>
   calculateHraExemption 600000 300000 300000 True \<le> HRA_METRO_PERCENT * 600000"
proof -
  have a: "(0::rat) \<le> 600000" and b: "(0::rat) \<le> 300000" by simp_all
  have v: "calculateHraExemption 600000 300000 300000 True = 240000" by code_simp
  from C6_hra_bounds [OF a b b, of True] a b v show ?thesis by simp
qed

subsection \<open>The redemption planner\<close>



text \<open>
  The planner returns the difference of the two taxes as it is, without a clamp, and
  subtracts the next-year exemption as it is given; the law above rests on that exemption
  not being negative. On a negative one (200000 planned, 125000 of exemption left, -100000
  next year) the one-year tax is 9750, the split tax 22750 and the difference -13000.
\<close>

lemma redemption_negative_next_exemption:
  "split_savings (computeRedemptionTax (Some 200000)
      \<lparr>exemptionRemaining = Some 125000, exemptionNextFy = Some (- 100000)\<rparr>) = - 13000"
  by code_simp

subsection \<open>The Section 87A rebate\<close>

lemma regime_slabs_marginal:
  "getMarginalRate x rg fy ageCategory = marginal_loop x (regime_slabs rg fy ageCategory) 0"
  by (simp add: getMarginalRate_def regime_slabs_def)

lemma regime_slabs_new:
  "tax_after_rebate (calculateNewRegimeTax x fy) =
     apply87aRebate (computeTaxOnSlabs x (regime_slabs ''new'' fy ageCategory)) x ''new'' fy"
  by (simp add: calculateNewRegimeTax_def regime_slabs_def Let_def)

lemma regime_slabs_old:
  "tax_after_rebate (calculateOldRegimeTax x fy ageCategory) =
     apply87aRebate (computeTaxOnSlabs x (regime_slabs ''old'' fy ageCategory)) x ''old'' fy"
  by (simp add: calculateOldRegimeTax_def regime_slabs_def Let_def)

lemmas slab_tables =
  NEW_REGIME_SLABS_FY2024_25_def NEW_REGIME_SLABS_FY2025_26_def OLD_REGIME_SLABS_BELOW_60_def
  OLD_REGIME_SLABS_SENIOR_def OLD_REGIME_SLABS_SUPER_SENIOR_def

lemma tax_at_ceilings:
  "computeTaxOnSlabs 500000 OLD_REGIME_SLABS_BELOW_60 = 12500"
  "computeTaxOnSlabs 500001 OLD_REGIME_SLABS_BELOW_60 = 125002 / 10"
  "computeTaxOnSlabs 500000 OLD_REGIME_SLABS_SENIOR = 10000"
  "computeTaxOnSlabs 500001 OLD_REGIME_SLABS_SENIOR = 100002 / 10"
  "computeTaxOnSlabs 500000 OLD_REGIME_SLABS_SUPER_SENIOR = 0"
  "computeTaxOnSlabs 500001 OLD_REGIME_SLABS_SUPER_SENIOR = 2 / 10"
  "computeTaxOnSlabs 700000 NEW_REGIME_SLABS_FY2024_25 = 20000"
  "computeTaxOnSlabs 700001 NEW_REGIME_SLABS_FY2024_25 = 200001 / 10"
  "computeTaxOnSlabs 1200000 NEW_REGIME_SLABS_FY2025_26 = 60000"
  "computeTaxOnSlabs 1200001 NEW_REGIME_SLABS_FY2025_26 = 6000015 / 100"
  by code_simp+

lemma rebate_entries:
  assumes "REBATE_87A fy rg = Some info"
  shows "(fy = ''2024-25'' \<or> fy = ''2025-26'') \<and>
         (rg = ''old'' \<and> income_limit info = 500000 \<and> max_rebate info = 12500 \<or>
          rg = ''new'' \<and> fy = ''2024-25'' \<and> income_limit info = 700000 \<and>
            max_rebate info = 25000 \<or>
          rg = ''new'' \<and> fy = ''2025-26'' \<and> income_limit info = 1200000 \<and>
            max_rebate info = 60000)"
  using assms by (auto simp: REBATE_87A_def split: if_splits)

text \<open>
  Claim C5. Rebate cliff: for every financial year and regime that has an entry in the
  87A table (and, for the old regime, every age category), with the base tax computed by
  \<open>computeTaxOnSlabs\<close> on the slabs of that regime: at the income ceiling the rebate
  subtracted is the lesser of the slab tax and the maximum rebate of the entry, and the
  tax after rebate is the slab tax less that rebate; one rupee above the ceiling nothing
  is subtracted, the tax after rebate is the whole slab tax; so the tax after rebate
  rises over that one rupee by at least the full rebate that was subtracted at the
  ceiling.
\<close>

theorem C5_rebate_cliff:
  assumes "REBATE_87A fy rg = Some info"
  shows "apply87aRebate (computeTaxOnSlabs (income_limit info)
             (regime_slabs rg fy ageCategory)) (income_limit info) rg fy
           = computeTaxOnSlabs (income_limit info) (regime_slabs rg fy ageCategory)
             - min (computeTaxOnSlabs (income_limit info) (regime_slabs rg fy ageCategory))
                   (max_rebate info) \<and>
         apply87aRebate (computeTaxOnSlabs (income_limit info + 1)
             (regime_slabs rg fy ageCategory)) (income_limit info + 1) rg fy
           = computeTaxOnSlabs (income_limit info + 1) (regime_slabs rg fy ageCategory) \<and>
         apply87aRebate (computeTaxOnSlabs (income_limit info + 1)
             (regime_slabs rg fy ageCategory)) (income_limit info + 1) rg fy
         - apply87aRebate (computeTaxOnSlabs (income_limit info)
             (regime_slabs rg fy ageCategory)) (income_limit info) rg fy
           \<ge> min (computeTaxOnSlabs (income_limit info) (regime_slabs rg fy ageCategory))
                 (max_rebate info)"
proof -
  from rebate_entries [OF assms]
  consider (old) "rg = ''old''" "income_limit info = 500000" "max_rebate info = 12500"
    | (new24) "rg = ''new''" "fy = ''2024-25''" "income_limit info = 700000"
        "max_rebate info = 25000"
    | (new25) "rg = ''new''" "fy = ''2025-26''" "income_limit info = 1200000"
        "max_rebate info = 60000"
    by blast
  then show ?thesis
  proof cases
    case old
    then show ?thesis
      using assms
      by (simp add: apply87aRebate_def regime_slabs_def tax_at_ceilings Math_round_zero
          Math_round_numeral)
  next
    case new24
    then show ?thesis
      using assms
      by (simp add: apply87aRebate_def regime_slabs_def tax_at_ceilings Math_round_zero
          Math_round_numeral)
  next
    case new25
    then show ?thesis
      using assms
      by (simp add: apply87aRebate_def regime_slabs_def tax_at_ceilings Math_round_zero
          Math_round_numeral)
  qed
qed

theorem C5_rebate_cliff_witness:
  "REBATE_87A ''2024-25'' ''new'' = Some \<lparr>income_limit = 700000, max_rebate = 25000\<rparr> \<and>
   computeTaxOnSlabs 700000 (regime_slabs ''new'' ''2024-25'' ''below_60'') = 20000 \<and>
   apply87aRebate (computeTaxOnSlabs 700000 (regime_slabs ''new'' ''2024-25'' ''below_60''))
     700000 ''new'' ''2024-25'' = 20000 - min 20000 25000 \<and>
   apply87aRebate (computeTaxOnSlabs 700001 (regime_slabs ''new'' ''2024-25'' ''below_60''))
     700001 ''new'' ''2024-25'' = 200001 / 10 \<and>
   apply87aRebate (computeTaxOnSlabs 700001 (regime_slabs ''new'' ''2024-25'' ''below_60''))
     700001 ''new'' ''2024-25''
   - apply87aRebate (computeTaxOnSlabs 700000 (regime_slabs ''new'' ''2024-25'' ''below_60''))
     700000 ''new'' ''2024-25''
   \<ge> (20000 :: rat) \<and>
   REBATE_87A ''2025-26'' ''new'' = Some \<lparr>income_limit = 1200000, max_rebate = 60000\<rparr> \<and>
   computeTaxOnSlabs 1200000 (regime_slabs ''new'' ''2025-26'' ''below_60'') = 60000 \<and>
   apply87aRebate (computeTaxOnSlabs 1200000 (regime_slabs ''new'' ''2025-26'' ''below_60''))
     1200000 ''new'' ''2025-26'' = 60000 - min 60000 60000 \<and>
   apply87aRebate (computeTaxOnSlabs 1200001 (regime_slabs ''new'' ''2025-26'' ''below_60''))
     1200001 ''new'' ''2025-26'' = 6000015 / 100 \<and>
   REBATE_87A ''2024-25'' ''old'' = Some \<lparr>income_limit = 500000, max_rebate = 12500\<rparr> \<and>
   computeTaxOnSlabs 500000 (regime_slabs ''old'' ''2024-25'' ''below_60'') = 12500 \<and>
   apply87aRebate (computeTaxOnSlabs 500000 (regime_slabs ''old'' ''2024-25'' ''below_60''))
     500000 ''old'' ''2024-25'' = 12500 - min 12500 12500 \<and>
   apply87aRebate (computeTaxOnSlabs 500001 (regime_slabs ''old'' ''2024-25'' ''below_60''))
     500001 ''old'' ''2024-25'' = 125002 / 10"
proof -
  have e1: "REBATE_87A ''2024-25'' ''new'' = Some \<lparr>income_limit = 700000, max_rebate = 25000\<rparr>"
    by (simp add: REBATE_87A_def)
  have e2: "REBATE_87A ''2025-26'' ''new'' = Some \<lparr>income_limit = 1200000, max_rebate = 60000\<rparr>"
    by (simp add: REBATE_87A_def)
  have e3: "REBATE_87A ''2024-25'' ''old'' = Some \<lparr>income_limit = 500000, max_rebate = 12500\<rparr>"
    by (simp add: REBATE_87A_def)
  have v1: "computeTaxOnSlabs 700000 (regime_slabs ''new'' ''2024-25'' ''below_60'') = 20000"
    "computeTaxOnSlabs 700001 (regime_slabs ''new'' ''2024-25'' ''below_60'') = 200001 / 10"
    by code_simp+
  have v2: "computeTaxOnSlabs 1200000 (regime_slabs ''new'' ''2025-26'' ''below_60'') = 60000"
    "computeTaxOnSlabs 1200001 (regime_slabs ''new'' ''2025-26'' ''below_60'') = 6000015 / 100"
    by code_simp+
  have v3: "computeTaxOnSlabs 500000 (regime_slabs ''old'' ''2024-25'' ''below_60'') = 12500"
    "computeTaxOnSlabs 500001 (regime_slabs ''old'' ''2024-25'' ''below_60'') = 125002 / 10"
    by code_simp+
  from C5_rebate_cliff [OF e1, of "''below_60''"] have w1:
    "apply87aRebate (computeTaxOnSlabs 700000 (regime_slabs ''new'' ''2024-25'' ''below_60''))
       700000 ''new'' ''2024-25'' = 20000 - min 20000 25000 \<and>
     apply87aRebate (computeTaxOnSlabs 700001 (regime_slabs ''new'' ''2024-25'' ''below_60''))
       700001 ''new'' ''2024-25'' = 200001 / 10 \<and>
     apply87aRebate (computeTaxOnSlabs 700001 (regime_slabs ''new'' ''2024-25'' ''below_60''))
       700001 ''new'' ''2024-25''
     - apply87aRebate (computeTaxOnSlabs 700000 (regime_slabs ''new'' ''2024-25'' ''below_60''))
       700000 ''new'' ''2024-25''
     \<ge> (20000 :: rat)"
    by (simp add: v1)
  from C5_rebate_cliff [OF e2, of "''below_60''"] have w2:
    "apply87aRebate (computeTaxOnSlabs 1200000 (regime_slabs ''new'' ''2025-26'' ''below_60''))
       1200000 ''new'' ''2025-26'' = 60000 - min 60000 60000 \<and>
     apply87aRebate (computeTaxOnSlabs 1200001 (regime_slabs ''new'' ''2025-26'' ''below_60''))
       1200001 ''new'' ''2025-26'' = 6000015 / 100"
    by (simp add: v2)
  from C5_rebate_cliff [OF e3, of "''below_60''"] have w3:
    "apply87aRebate (computeTaxOnSlabs 500000 (regime_slabs ''old'' ''2024-25'' ''below_60''))
       500000 ''old'' ''2024-25'' = 12500 - min 12500 12500 \<and>
     apply87aRebate (computeTaxOnSlabs 500001 (regime_slabs ''old'' ''2024-25'' ''below_60''))
       500001 ''old'' ''2024-25'' = 125002 / 10"
    by (simp add: v3)
  from e1 e2 e3 v1(1) v2(1) v3(1) w1 w2 w3 show ?thesis by blast
qed

text \<open>
  Claim C4 as stated fails: a financial year outside the two known ones selects the
  2024-25 slabs, but the 87A table has no entry for it and no rebate is applied. At a
  taxable income of 600000 the new regime calculator returns rebate 0 and total tax 15600
  for \<^verbatim>\<open>'2023-24'\<close>, against rebate 15000 and total tax 0 for \<^verbatim>\<open>'2024-25'\<close>; the old regime
  calculator at 400000 returns 7800 against 0.
\<close>

theorem C4_unknown_year_no_rebate:
  "rebate_87a (calculateNewRegimeTax 600000 ''2023-24'') = 0 \<and>
   rebate_87a (calculateNewRegimeTax 600000 ''2024-25'') = 15000 \<and>
   total_tax (calculateNewRegimeTax 600000 ''2023-24'') = 15600 \<and>
   total_tax (calculateNewRegimeTax 600000 ''2024-25'') = 0 \<and>
   total_tax (calculateOldRegimeTax 400000 ''2023-24'' ''below_60'') = 7800 \<and>
   total_tax (calculateOldRegimeTax 400000 ''2024-25'' ''below_60'') = 0"
  by code_simp

lemma no_rebate_unknown_fy:
  "fy \<noteq> ''2024-25'' \<Longrightarrow> fy \<noteq> ''2025-26'' \<Longrightarrow> apply87aRebate t x rg fy = t"
  by (simp add: apply87aRebate_def REBATE_87A_def)

lemma no_rebate_above_new: "700000 < x \<Longrightarrow> apply87aRebate t x ''new'' ''2024-25'' = t"
  by (simp add: apply87aRebate_def REBATE_87A_def)

lemma no_rebate_above_old: "500000 < x \<Longrightarrow> apply87aRebate t x ''old'' ''2024-25'' = t"
  by (simp add: apply87aRebate_def REBATE_87A_def)

text \<open>
  Claim C4, amended. For every taxable income and every financial year string other than
  \<^verbatim>\<open>'2024-25'\<close> and \<^verbatim>\<open>'2025-26'\<close>, both calculators use the slabs they use for 2024-25
  (the base tax is the same) and apply no 87A rebate (the rebate component is 0 and the tax
  after rebate is the slab tax); the breakdown is the one of 2024-25 whenever the taxable
  income is above the 2024-25 ceiling of the rebate, 700000 under the new regime and
  500000 under the old regime, for each age category.
\<close>

theorem C4_unknown_year_slabs:
  assumes "fy \<noteq> ''2024-25''" and "fy \<noteq> ''2025-26''"
  shows "base_tax (calculateNewRegimeTax x fy) = base_tax (calculateNewRegimeTax x ''2024-25'') \<and>
         rebate_87a (calculateNewRegimeTax x fy) = 0 \<and>
         tax_after_rebate (calculateNewRegimeTax x fy)
           = computeTaxOnSlabs x NEW_REGIME_SLABS_FY2024_25 \<and>
         (700000 < x \<longrightarrow> calculateNewRegimeTax x fy = calculateNewRegimeTax x ''2024-25'') \<and>
         base_tax (calculateOldRegimeTax x fy ageCategory)
           = base_tax (calculateOldRegimeTax x ''2024-25'' ageCategory) \<and>
         rebate_87a (calculateOldRegimeTax x fy ageCategory) = 0 \<and>
         tax_after_rebate (calculateOldRegimeTax x fy ageCategory)
           = computeTaxOnSlabs x (regime_slabs ''old'' fy ageCategory) \<and>
         (500000 < x \<longrightarrow>
            calculateOldRegimeTax x fy ageCategory
              = calculateOldRegimeTax x ''2024-25'' ageCategory)"
proof -
  have n1: "base_tax (calculateNewRegimeTax x fy) = base_tax (calculateNewRegimeTax x ''2024-25'')"
    using assms by (simp add: calculateNewRegimeTax_def Let_def)
  have n2: "rebate_87a (calculateNewRegimeTax x fy) = 0"
    using assms by (simp add: calculateNewRegimeTax_def Let_def no_rebate_unknown_fy Math_round_zero)
  have n3: "tax_after_rebate (calculateNewRegimeTax x fy)
      = computeTaxOnSlabs x NEW_REGIME_SLABS_FY2024_25"
    using assms by (simp add: calculateNewRegimeTax_def Let_def no_rebate_unknown_fy)
  have n4: "calculateNewRegimeTax x fy = calculateNewRegimeTax x ''2024-25''" if "700000 < x"
    using assms that
    by (simp add: calculateNewRegimeTax_def Let_def no_rebate_unknown_fy no_rebate_above_new)
  have o1: "base_tax (calculateOldRegimeTax x fy ageCategory)
      = base_tax (calculateOldRegimeTax x ''2024-25'' ageCategory)"
    by (simp add: calculateOldRegimeTax_def Let_def)
  have o2: "rebate_87a (calculateOldRegimeTax x fy ageCategory) = 0"
    using assms by (simp add: calculateOldRegimeTax_def Let_def no_rebate_unknown_fy Math_round_zero)
  have o3: "tax_after_rebate (calculateOldRegimeTax x fy ageCategory)
      = computeTaxOnSlabs x (regime_slabs ''old'' fy ageCategory)"
    using assms
    by (simp add: calculateOldRegimeTax_def Let_def no_rebate_unknown_fy regime_slabs_def)
  have o4: "calculateOldRegimeTax x fy ageCategory
      = calculateOldRegimeTax x ''2024-25'' ageCategory" if "500000 < x"
    using assms that
    by (simp add: calculateOldRegimeTax_def Let_def no_rebate_unknown_fy no_rebate_above_old)
  from n1 n2 n3 n4 o1 o2 o3 o4 show ?thesis by blast
qed

theorem C4_unknown_year_slabs_witness:
  "''2023-24'' \<noteq> ''2024-25'' \<and> ''2023-24'' \<noteq> ''2025-26'' \<and>
   (700000::rat) < 1000000 \<and> (500000::rat) < 1000000 \<and>
   rebate_87a (calculateNewRegimeTax 1000000 ''2023-24'') = 0 \<and>
   calculateNewRegimeTax 1000000 ''2023-24'' = calculateNewRegimeTax 1000000 ''2024-25'' \<and>
   total_tax (calculateNewRegimeTax 1000000 ''2024-25'') = 52000 \<and>
   calculateOldRegimeTax 1000000 ''2023-24'' ''senior''
     = calculateOldRegimeTax 1000000 ''2024-25'' ''senior'' \<and>
   total_tax (calculateOldRegimeTax 1000000 ''2024-25'' ''senior'') = 114400"
proof -
  have a: "''2023-24'' \<noteq> ''2024-25''" and b: "''2023-24'' \<noteq> ''2025-26''" by simp_all
  have c: "(700000::rat) < 1000000" and d: "(500000::rat) < 1000000" by simp_all
  have v1: "total_tax (calculateNewRegimeTax 1000000 ''2024-25'') = 52000" by code_simp
  have v2: "total_tax (calculateOldRegimeTax 1000000 ''2024-25'' ''senior'') = 114400"
    by code_simp
  from C4_unknown_year_slabs [OF a b, of 1000000 "''senior''"] a b c d v1 v2 show ?thesis by blast
qed


subsection \<open>The checks: identifiers, status and savings\<close>

lemma check_id_check80c: "check_id (check80c s) = ''80c_gap''"
  by (simp add: check80c_def Let_def)

lemma check_id_checkNps: "check_id (checkNps s) = ''nps_check''"
  by (simp add: checkNps_def Let_def)

lemma check_id_checkHomeLoan: "check_id (checkHomeLoan s) = ''home_loan_check''"
  by (simp add: checkHomeLoan_def Let_def)

lemma check_id_checkHra: "check_id (checkHra s) = ''hra_optimizer''"
  by (simp add: checkHra_def Let_def)

lemma check_id_check80d: "check_id (check80d s co) = ''80d_check''"
  by (simp add: check80d_def Let_def)

lemma check_id_checkRegime: "check_id (checkRegime s co) = ''regime_arbitrage''"
  by (simp add: checkRegime_def Let_def)

lemma checkCapitalGains_unfold:
  fixes t h co
  defines "d \<equiv> (case asOf co of Some d \<Rightarrow> d
             | None \<Rightarrow> if month t < 3 then \<lparr>year = year t, month = 2, day = 31\<rparr>
                       else \<lparr>year = year t + 1, month = 2, day = 31\<rparr>)"
  assumes e: "foldl (cg_step d) ([], [], []) (holdings h) = (a, b, c)"
  shows "check_id (checkCapitalGains t h co) = ''capital_gains''"
    and "status (checkCapitalGains t h co) =
          (if length (holdings h) = 0 then NOT_APPLICABLE
           else if min (foldl (\<lambda>sum h. sum + lt_gain h) 0 a)
                     (max (LTCG_EXEMPTION - realized_ltcg_this_fy h) 0) \<le> 0 \<and> length c = 0
                then OPTIMIZED else OPPORTUNITY)"
    and "savings (checkCapitalGains t h co) =
          (if length (holdings h) = 0 then 0
           else if min (foldl (\<lambda>sum h. sum + lt_gain h) 0 a)
                     (max (LTCG_EXEMPTION - realized_ltcg_this_fy h) 0) \<le> 0 \<and> length c = 0
                then 0
                else Math_round (min (foldl (\<lambda>sum h. sum + lt_gain h) 0 a)
                       (max (LTCG_EXEMPTION - realized_ltcg_this_fy h) 0)
                     * LTCG_RATE * (1 + CESS_RATE)))"
  using e by (simp_all add: checkCapitalGains_def Let_def d_def [symmetric])

lemma check_id_checkCapitalGains: "check_id (checkCapitalGains t h co) = ''capital_gains''"
proof -
  obtain a b c where
    "foldl (cg_step (case asOf co of Some d \<Rightarrow> d
             | None \<Rightarrow> if month t < 3 then \<lparr>year = year t, month = 2, day = 31\<rparr>
                       else \<lparr>year = year t + 1, month = 2, day = 31\<rparr>))
       ([], [], []) (holdings h) = (a, b, c)"
    using prod_cases3 by blast
  then show ?thesis by (rule checkCapitalGains_unfold(1))
qed

lemma check_id_suppress: "check_id (suppress c) = check_id c"
  by (simp add: suppress_def Let_def)

lemmas check_ids =
  check_id_check80c check_id_checkNps check_id_checkHomeLoan check_id_checkHra
  check_id_check80d check_id_checkRegime check_id_checkCapitalGains check_id_suppress

lemma marginal_loop_nonneg:
  "0 \<le> r \<Longrightarrow> \<forall>s \<in> set slabs. 0 \<le> snd s \<Longrightarrow> 0 \<le> marginal_loop x slabs r"
  by (induction x slabs r rule: marginal_loop.induct) (auto split: option.splits)

lemma getMarginalRate_nonneg: "0 \<le> getMarginalRate x rg fy ageCategory"
  unfolding getMarginalRate_def Let_def
  by (rule marginal_loop_nonneg) (auto simp: slab_tables)

lemma saving_nonneg:
  "0 \<le> amount \<Longrightarrow>
   0 \<le> Math_round (amount * getMarginalRate x rg fy ageCategory * (1 + CESS_RATE))"
  by (intro Math_round_nonneg mult_nonneg_nonneg getMarginalRate_nonneg)
     (simp_all add: CESS_RATE_def)

lemma savings_check80c: "0 \<le> savings (check80c s)"
  by (simp add: check80c_def Let_def saving_nonneg)

lemma savings_checkNps: "0 \<le> savings (checkNps s)"
  by (simp add: checkNps_def Let_def saving_nonneg)

lemma savings_check80d: "0 \<le> savings (check80d s co)"
proof -
  have "0 \<le> (if or_false (parentsSenior co) then LIMIT_80D_PARENTS_SENIOR
              else LIMIT_80D_PARENTS_BELOW_60)"
    by (simp add: LIMIT_80D_PARENTS_SENIOR_def LIMIT_80D_PARENTS_BELOW_60_def)
  then show ?thesis
    by (simp add: check80d_def Let_def saving_nonneg)
qed

lemma savings_checkHra: "savings (checkHra s) = 0"
  by (simp add: checkHra_def Let_def)

lemma savings_checkHomeLoan: "savings (checkHomeLoan s) = 0"
  by (simp add: checkHomeLoan_def Let_def)

lemma checkRegime_status:
  "status (checkRegime s co) = (if 0 < savings (checkRegime s co) then OPPORTUNITY else OPTIMIZED)"
  by (simp add: checkRegime_def Let_def)

lemma checkRegime_savings_nonneg: "0 \<le> savings (checkRegime s co)"
  by (simp add: checkRegime_def Let_def)

lemma checkRegime_recommended:
  "map_of (details (checkRegime s co)) ''recommended_regime'' =
     Some (Str (if 0 < savings (checkRegime s co) then ''old'' else ''new''))"
  by (simp add: checkRegime_def Let_def)

lemma recommended_or_new_checkRegime:
  "recommended_or_new (checkRegime s co) =
     (if 0 < savings (checkRegime s co) then ''old'' else ''new'')"
  by (simp add: recommended_or_new_def checkRegime_recommended)

lemma cg_step_gains:
  "\<forall>e \<in> set (fst st). 0 < lt_gain e \<Longrightarrow> \<forall>e \<in> set (fst (cg_step d st h)). 0 < lt_gain e"
  by (cases st) (auto simp: cg_step_def Let_def)

lemma cg_loop_gains:
  "\<forall>e \<in> set (fst st). 0 < lt_gain e \<Longrightarrow>
   \<forall>e \<in> set (fst (foldl (cg_step d) st hs)). 0 < lt_gain e"
proof (induction hs arbitrary: st)
  case Nil
  then show ?case by simp
next
  case (Cons h hs)
  from Cons.prems have "\<forall>e \<in> set (fst (cg_step d st h)). 0 < lt_gain e"
    by (rule cg_step_gains)
  then show ?case using Cons.IH by simp
qed

lemma foldl_sum_nonneg:
  "0 \<le> acc \<Longrightarrow> \<forall>e \<in> set xs. 0 < f e \<Longrightarrow> (0::rat) \<le> foldl (\<lambda>sum h. sum + f h) acc xs"
proof (induction xs arbitrary: acc)
  case Nil
  then show ?case by simp
next
  case (Cons x xs)
  have "0 \<le> acc + f x" using Cons.prems by (simp add: add_nonneg_nonneg less_imp_le)
  then show ?case using Cons.IH Cons.prems by simp
qed

lemma savings_checkCapitalGains: "0 \<le> savings (checkCapitalGains t h co)"
proof -
  let ?d = "case asOf co of Some d \<Rightarrow> d
             | None \<Rightarrow> if month t < 3 then \<lparr>year = year t, month = 2, day = 31\<rparr>
                       else \<lparr>year = year t + 1, month = 2, day = 31\<rparr>"
  obtain a b c where e: "foldl (cg_step ?d) ([], [], []) (holdings h) = (a, b, c)"
    using prod_cases3 by blast
  have "\<forall>e \<in> set (fst (foldl (cg_step ?d) ([], [], []) (holdings h))). 0 < lt_gain e"
    by (rule cg_loop_gains) simp
  then have "\<forall>e \<in> set a. 0 < lt_gain e" by (simp add: e)
  then have "0 \<le> foldl (\<lambda>sum h. sum + lt_gain h) 0 a"
    by (intro foldl_sum_nonneg) simp_all
  then have "0 \<le> min (foldl (\<lambda>sum h. sum + lt_gain h) 0 a)
                 (max (LTCG_EXEMPTION - realized_ltcg_this_fy h) 0)"
    by simp
  then have "0 \<le> Math_round (min (foldl (\<lambda>sum h. sum + lt_gain h) 0 a)
                       (max (LTCG_EXEMPTION - realized_ltcg_this_fy h) 0)
                     * LTCG_RATE * (1 + CESS_RATE))"
    by (intro Math_round_nonneg mult_nonneg_nonneg) (simp_all add: LTCG_RATE_def CESS_RATE_def)
  then show ?thesis
    unfolding checkCapitalGains_unfold(3) [OF e] by simp
qed

lemma old_marginal_rate:
  "getMarginalRate x ''old'' fy ''below_60'' =
     (if x \<le> 250000 then 0 else if x \<le> 500000 then 5 / 100
      else if x \<le> 1000000 then 20 / 100 else 30 / 100)"
  by (simp add: getMarginalRate_def OLD_REGIME_SLABS_BELOW_60_def)

lemma saving_pos:
  assumes "250000 < x" and "10 \<le> amount"
  shows "1 / 2 \<le> amount * getMarginalRate x ''old'' fy ''below_60'' * (1 + CESS_RATE)"
proof -
  have r: "5 / 100 \<le> getMarginalRate x ''old'' fy ''below_60''"
    using assms(1) by (simp add: old_marginal_rate)
  have "1 / 2 \<le> 10 * (5 / 100) * (1 + CESS_RATE)" by (simp add: CESS_RATE_def)
  also have "\<dots> \<le> amount * getMarginalRate x ''old'' fy ''below_60'' * (1 + CESS_RATE)"
    using assms(2) r by (intro mult_right_mono mult_mono) (simp_all add: CESS_RATE_def)
  finally show ?thesis .
qed

lemma saving_zero:
  "x \<le> 250000 \<Longrightarrow>
   Math_round (amount * getMarginalRate x ''old'' fy ''below_60'' * (1 + CESS_RATE)) = 0"
  by (simp add: old_marginal_rate Math_round_zero)

lemma check80c_opportunity:
  assumes "status (check80c s) = OPPORTUNITY"
  shows "0 < LIMIT_80C - (deduction_80c s + deduction_80ccc s + deduction_80ccd_1 s)"
    and "savings (check80c s) =
           Math_round ((LIMIT_80C - (deduction_80c s + deduction_80ccc s + deduction_80ccd_1 s))
             * getMarginalRate
                 (ob_gross_total_income (computeOldRegimeTaxableIncome s no_overrides))
                 ''old'' (financial_year s) ''below_60''
             * (1 + CESS_RATE))"
  using assms by (simp_all add: check80c_def Let_def min_def max_def split: if_splits)

lemma checkNps_opportunity:
  assumes "status (checkNps s) = OPPORTUNITY"
  shows "0 < LIMIT_80CCD_1B - deduction_80ccd_1b s"
    and "savings (checkNps s) =
           Math_round ((LIMIT_80CCD_1B - deduction_80ccd_1b s)
             * getMarginalRate
                 (ob_gross_total_income (computeOldRegimeTaxableIncome s no_overrides))
                 ''old'' (financial_year s) ''below_60''
             * (1 + CESS_RATE))"
  using assms by (simp_all add: checkNps_def Let_def max_def split: if_splits)

lemma check80d_opportunity:
  fixes s co
  defines "selfLimit \<equiv> (if or_false (selfSenior co) then LIMIT_80D_SELF_SENIOR
                         else LIMIT_80D_SELF_BELOW_60)"
    and "parentsLimit \<equiv> (if or_false (parentsSenior co) then LIMIT_80D_PARENTS_SENIOR
                            else LIMIT_80D_PARENTS_BELOW_60)"
  assumes "status (check80d s co) = OPPORTUNITY"
  shows "0 < (if deduction_80d s = 0 then parentsLimit
              else selfLimit + parentsLimit - deduction_80d s)"
    and "savings (check80d s co) =
           Math_round ((if deduction_80d s = 0 then parentsLimit
                        else selfLimit + parentsLimit - deduction_80d s)
             * getMarginalRate
                 (ob_gross_total_income (computeOldRegimeTaxableIncome s no_overrides))
                 ''old'' (financial_year s) ''below_60''
             * (1 + CESS_RATE))"
  using assms
  by (simp_all add: check80d_def Let_def LIMIT_80D_SELF_SENIOR_def LIMIT_80D_SELF_BELOW_60_def
      LIMIT_80D_PARENTS_SENIOR_def LIMIT_80D_PARENTS_BELOW_60_def split: if_splits)

lemma checkCapitalGains_opportunity:
  assumes "status (checkCapitalGains t h co) = OPPORTUNITY"
  shows "\<exists>x. map_of (details (checkCapitalGains t h co)) ''exemption_used'' = Some (Num x) \<and>
             0 \<le> x \<and>
             savings (checkCapitalGains t h co) = Math_round (x * LTCG_RATE * (1 + CESS_RATE))"
proof -
  let ?d = "case asOf co of Some d \<Rightarrow> d
             | None \<Rightarrow> if month t < 3 then \<lparr>year = year t, month = 2, day = 31\<rparr>
                       else \<lparr>year = year t + 1, month = 2, day = 31\<rparr>"
  obtain a b c where e: "foldl (cg_step ?d) ([], [], []) (holdings h) = (a, b, c)"
    using prod_cases3 by blast
  let ?x = "min (foldl (\<lambda>sum h. sum + lt_gain h) 0 a)
              (max (LTCG_EXEMPTION - realized_ltcg_this_fy h) 0)"
  have "\<forall>e \<in> set (fst (foldl (cg_step ?d) ([], [], []) (holdings h))). 0 < lt_gain e"
    by (rule cg_loop_gains) simp
  then have "\<forall>e \<in> set a. 0 < lt_gain e" by (simp add: e)
  then have "0 \<le> foldl (\<lambda>sum h. sum + lt_gain h) 0 a"
    by (intro foldl_sum_nonneg) simp_all
  then have x0: "0 \<le> ?x" by simp
  have opp1: "\<not> length (holdings h) = 0"
    using assms unfolding checkCapitalGains_unfold(2) [OF e] by (simp split: if_splits)
  have opp2: "\<not> (?x \<le> 0 \<and> length c = 0)"
    using assms unfolding checkCapitalGains_unfold(2) [OF e] by (simp split: if_splits)
  have sv: "savings (checkCapitalGains t h co) = Math_round (?x * LTCG_RATE * (1 + CESS_RATE))"
    unfolding checkCapitalGains_unfold(3) [OF e] by (simp only: opp1 opp2 if_False)
  have dt: "map_of (details (checkCapitalGains t h co)) ''exemption_used'' = Some (Num ?x)"
    unfolding checkCapitalGains_def Let_def e using opp1 opp2
    by (simp del: min_less_iff_conj min.bounded_iff)
  from dt x0 sv show ?thesis by blast
qed


lemma cg_rate:
  "4 \<le> x \<Longrightarrow> 1 / 2 \<le> x * LTCG_RATE * (1 + CESS_RATE)"
  "0 \<le> x \<Longrightarrow> x \<le> 3 \<Longrightarrow> Math_round (x * LTCG_RATE * (1 + CESS_RATE)) = 0"
proof -
  show "4 \<le> x \<Longrightarrow> 1 / 2 \<le> x * LTCG_RATE * (1 + CESS_RATE)"
    by (simp add: LTCG_RATE_def CESS_RATE_def)
  show "0 \<le> x \<Longrightarrow> x \<le> 3 \<Longrightarrow> Math_round (x * LTCG_RATE * (1 + CESS_RATE)) = 0"
    by (intro Math_round_small) (simp_all add: LTCG_RATE_def CESS_RATE_def)
qed

lemma check80c_status:
  "0 < LIMIT_80C - (deduction_80c s + deduction_80ccc s + deduction_80ccd_1 s) \<Longrightarrow>
   status (check80c s) = OPPORTUNITY"
  by (simp add: check80c_def Let_def min_def max_def)

lemma checkNps_status:
  "0 < LIMIT_80CCD_1B - deduction_80ccd_1b s \<Longrightarrow> status (checkNps s) = OPPORTUNITY"
  by (simp add: checkNps_def Let_def max_def)

lemma check80d_status:
  "0 < (if deduction_80d s = 0 then
          (if or_false (parentsSenior co) then LIMIT_80D_PARENTS_SENIOR
           else LIMIT_80D_PARENTS_BELOW_60)
        else
          (if or_false (selfSenior co) then LIMIT_80D_SELF_SENIOR else LIMIT_80D_SELF_BELOW_60) +
          (if or_false (parentsSenior co) then LIMIT_80D_PARENTS_SENIOR
           else LIMIT_80D_PARENTS_BELOW_60) - deduction_80d s) \<Longrightarrow>
   status (check80d s co) = OPPORTUNITY"
  by (simp add: check80d_def Let_def LIMIT_80D_SELF_SENIOR_def LIMIT_80D_SELF_BELOW_60_def
      LIMIT_80D_PARENTS_SENIOR_def LIMIT_80D_PARENTS_BELOW_60_def split: if_splits)

subsection \<open>The checks on the sample inputs\<close>

lemma checkCapitalGains_asOf:
  assumes "asOf co = Some d"
  shows "status (checkCapitalGains t h co) =
          (if length (holdings h) = 0 then NOT_APPLICABLE
           else if min (foldl (\<lambda>sum h. sum + lt_gain h) 0
                          (fst (foldl (cg_step d) ([], [], []) (holdings h))))
                     (max (LTCG_EXEMPTION - realized_ltcg_this_fy h) 0) \<le> 0 \<and>
                   length (snd (snd (foldl (cg_step d) ([], [], []) (holdings h)))) = 0
                then OPTIMIZED else OPPORTUNITY)"
    and "savings (checkCapitalGains t h co) =
          (if length (holdings h) = 0 then 0
           else if min (foldl (\<lambda>sum h. sum + lt_gain h) 0
                          (fst (foldl (cg_step d) ([], [], []) (holdings h))))
                     (max (LTCG_EXEMPTION - realized_ltcg_this_fy h) 0) \<le> 0 \<and>
                   length (snd (snd (foldl (cg_step d) ([], [], []) (holdings h)))) = 0
                then 0
                else Math_round (min (foldl (\<lambda>sum h. sum + lt_gain h) 0
                          (fst (foldl (cg_step d) ([], [], []) (holdings h))))
                       (max (LTCG_EXEMPTION - realized_ltcg_this_fy h) 0)
                     * LTCG_RATE * (1 + CESS_RATE)))"
proof -
  let ?X = "foldl (cg_step d) ([], [], []) (holdings h)"
  have e: "foldl (cg_step (case asOf co of Some d \<Rightarrow> d
             | None \<Rightarrow> if month t < 3 then \<lparr>year = year t, month = 2, day = 31\<rparr>
                       else \<lparr>year = year t + 1, month = 2, day = 31\<rparr>))
       ([], [], []) (holdings h) = (fst ?X, fst (snd ?X), snd (snd ?X))"
    by (simp add: assms)
  show "status (checkCapitalGains t h co) =
          (if length (holdings h) = 0 then NOT_APPLICABLE
           else if min (foldl (\<lambda>sum h. sum + lt_gain h) 0 (fst ?X))
                     (max (LTCG_EXEMPTION - realized_ltcg_this_fy h) 0) \<le> 0 \<and>
                   length (snd (snd ?X)) = 0
                then OPTIMIZED else OPPORTUNITY)"
    by (rule checkCapitalGains_unfold(2) [OF e])
  show "savings (checkCapitalGains t h co) =
          (if length (holdings h) = 0 then 0
           else if min (foldl (\<lambda>sum h. sum + lt_gain h) 0 (fst ?X))
                     (max (LTCG_EXEMPTION - realized_ltcg_this_fy h) 0) \<le> 0 \<and>
                   length (snd (snd ?X)) = 0
                then 0
                else Math_round (min (foldl (\<lambda>sum h. sum + lt_gain h) 0 (fst ?X))
                       (max (LTCG_EXEMPTION - realized_ltcg_this_fy h) 0)
                     * LTCG_RATE * (1 + CESS_RATE)))"
    by (rule checkCapitalGains_unfold(3) [OF e])
qed

lemmas holding_defs =
  cg_step_def holdingMonths_def isLongTerm_def unrealized_gain_def current_value_def
  total_cost_def fy_end_2025_def Let_def Math_round_numeral Math_round_zero Math_round_frac

lemma recent_loop:
  "fst (foldl (cg_step fy_end_2025) ([], [], []) (holdings RECENT_HOLDINGS)) = []"
  "length (snd (snd (foldl (cg_step fy_end_2025) ([], [], []) (holdings RECENT_HOLDINGS)))) = 1"
  by (simp_all add: RECENT_HOLDINGS_def holding_defs)

lemma estimated_loop:
  "map lt_gain (fst (foldl (cg_step fy_end_2025) ([], [], []) (holdings ESTIMATED_HOLDINGS)))
     = [87500]"
  by (simp add: ESTIMATED_HOLDINGS_def holding_defs)

lemma foldl_sum_map:
  "foldl (\<lambda>sum h. sum + f h) acc xs = (acc :: rat) + sum_list (map f xs)"
  by (induction xs arbitrary: acc) simp_all

lemma recent_cg:
  "status (checkCapitalGains a_day RECENT_HOLDINGS \<lparr>asOf = Some fy_end_2025\<rparr>) = OPPORTUNITY"
  "savings (checkCapitalGains a_day RECENT_HOLDINGS \<lparr>asOf = Some fy_end_2025\<rparr>) = 0"
proof -
  have a: "asOf \<lparr>asOf = Some fy_end_2025\<rparr> = Some fy_end_2025" by simp
  show "status (checkCapitalGains a_day RECENT_HOLDINGS \<lparr>asOf = Some fy_end_2025\<rparr>)
      = OPPORTUNITY"
    unfolding checkCapitalGains_asOf [OF a] recent_loop
    by (simp add: RECENT_HOLDINGS_def)
  show "savings (checkCapitalGains a_day RECENT_HOLDINGS \<lparr>asOf = Some fy_end_2025\<rparr>) = 0"
    unfolding checkCapitalGains_asOf [OF a] recent_loop
    by (simp add: RECENT_HOLDINGS_def LTCG_EXEMPTION_def Math_round_zero)
qed

lemma estimated_cg:
  "status (checkCapitalGains a_day ESTIMATED_HOLDINGS \<lparr>asOf = Some fy_end_2025\<rparr>) = OPPORTUNITY"
  "savings (checkCapitalGains a_day ESTIMATED_HOLDINGS \<lparr>asOf = Some fy_end_2025\<rparr>) = 11375"
proof -
  have a: "asOf \<lparr>asOf = Some fy_end_2025\<rparr> = Some fy_end_2025" by simp
  show "status (checkCapitalGains a_day ESTIMATED_HOLDINGS \<lparr>asOf = Some fy_end_2025\<rparr>)
      = OPPORTUNITY"
    unfolding checkCapitalGains_asOf [OF a] foldl_sum_map estimated_loop
    by (simp add: ESTIMATED_HOLDINGS_def LTCG_EXEMPTION_def)
  show "savings (checkCapitalGains a_day ESTIMATED_HOLDINGS \<lparr>asOf = Some fy_end_2025\<rparr>)
      = 11375"
    unfolding checkCapitalGains_asOf [OF a] foldl_sum_map estimated_loop
    by (simp add: ESTIMATED_HOLDINGS_def LTCG_EXEMPTION_def LTCG_RATE_def CESS_RATE_def
        Math_round_numeral)
qed

lemma three_lakh:
  "status (check80c (LOW_EARNER\<lparr>gross_salary := 300000\<rparr>)) = OPPORTUNITY"
  "savings (check80c (LOW_EARNER\<lparr>gross_salary := 300000\<rparr>)) = 0"
  "status (check80d (LOW_EARNER\<lparr>gross_salary := 300000\<rparr>)
     \<lparr>parentsSenior = None, selfSenior = None\<rparr>) = OPPORTUNITY"
  "savings (check80d (LOW_EARNER\<lparr>gross_salary := 300000\<rparr>)
     \<lparr>parentsSenior = None, selfSenior = None\<rparr>) = 0"
  "status (checkNps (LOW_EARNER\<lparr>gross_salary := 300000\<rparr>)) = OPPORTUNITY"
  "savings (checkNps (LOW_EARNER\<lparr>gross_salary := 300000\<rparr>)) = 0"
  "ob_gross_total_income
     (computeOldRegimeTaxableIncome (LOW_EARNER\<lparr>gross_salary := 300000\<rparr>) no_overrides)
     = 247600"
  "getMarginalRate 247600 ''old'' ''2024-25'' ''below_60'' = 0"
  by (simp_all add: check80c_def check80d_def checkNps_def LOW_EARNER_def Let_def
      computeOldRegimeTaxableIncome_def no_overrides_def STANDARD_DEDUCTION_def LIMIT_80C_def
      LIMIT_80CCD_1B_def LIMIT_80D_SELF_BELOW_60_def LIMIT_80D_PARENTS_BELOW_60_def or_false_def
      getMarginalRate_def OLD_REGIME_SLABS_BELOW_60_def Math_round_zero)

lemma used_cg:
  "map_of (details (checkCapitalGains a_day ESTIMATED_HOLDINGS \<lparr>asOf = Some fy_end_2025\<rparr>))
     ''exemption_used'' = Some (Num 87500)"
  "map_of (details (checkCapitalGains a_day RECENT_HOLDINGS \<lparr>asOf = Some fy_end_2025\<rparr>))
     ''exemption_used'' = Some (Num 0)"
  by (simp_all add: checkCapitalGains_def ESTIMATED_HOLDINGS_def RECENT_HOLDINGS_def
      holding_defs LTCG_EXEMPTION_def)

subsection \<open>The orchestrator\<close>

lemma by_id_unique:
  assumes "x \<in> set xs" and "check_id x = cid"
    and "\<And>y. y \<in> set xs \<Longrightarrow> check_id y = cid \<Longrightarrow> y = x"
  shows "by_id cid xs = Some x"
  using assms
proof (induction xs)
  case Nil
  then show ?case by simp
next
  case (Cons a xs)
  show ?case
  proof (cases "check_id a = cid")
    case True
    then have "a = x" using Cons.prems(3) [of a] by simp
    with True show ?thesis by (simp add: by_id_def)
  next
    case False
    with Cons.prems(1,2) have "x \<in> set xs" by auto
    moreover have "\<And>y. y \<in> set xs \<Longrightarrow> check_id y = cid \<Longrightarrow> y = x"
      using Cons.prems(3) by simp
    ultimately have "by_id cid xs = Some x"
      using Cons.IH Cons.prems(2) by blast
    with False show ?thesis by (simp add: by_id_def)
  qed
qed

lemma by_id_sorted:
  assumes "x \<in> set xs" and "check_id x = cid"
    and "\<And>y. y \<in> set xs \<Longrightarrow> check_id y = cid \<Longrightarrow> y = x"
  shows "by_id cid (sort_key k xs) = Some x"
proof (rule by_id_unique)
  show "x \<in> set (sort_key k xs)" using assms(1) by (simp only: set_sort)
  show "check_id x = cid" by (rule assms(2))
  show "\<And>y. y \<in> set (sort_key k xs) \<Longrightarrow> check_id y = cid \<Longrightarrow> y = x"
    using assms(3) by (simp only: set_sort)
qed

lemma sum_list_insort_key:
  "sum_list (map f (insort_key k x xs)) = (f x :: rat) + sum_list (map f xs)"
  by (induction xs) simp_all

lemma sum_list_sort_key: "sum_list (map f (sort_key k xs)) = (sum_list (map f xs) :: rat)"
  by (induction xs) (simp_all add: sum_list_insort_key)

lemma savings_suppress: "savings (suppress c) = 0"
  by (simp add: suppress_def Let_def)

lemma status_suppress: "status (suppress c) = NOT_APPLICABLE"
  by (simp add: suppress_def Let_def)

lemma runAllChecks_recommended:
  "recommended_regime (runAllChecks today salary hold opts) =
     recommended_or_new (checkRegime salary
        \<lparr>parentsSenior = Some (or_false (parentsSenior opts)), selfSenior = None\<rparr>)"
  unfolding runAllChecks_def createTaxHawkResult_def Let_def
  by (simp only: Report.select_convs)

lemma runAllChecks_total:
  "total_savings (runAllChecks today salary hold opts) =
     savings (checkRegime salary
        \<lparr>parentsSenior = Some (or_false (parentsSenior opts)), selfSenior = None\<rparr>) +
     savings (checkCapitalGains today (case hold of None \<Rightarrow> empty_holdings | Some h \<Rightarrow> h)
        \<lparr>asOf = cgAsOf opts\<rparr>)"
  unfolding runAllChecks_def createTaxHawkResult_def Let_def
  by (simp only: Report.select_convs)

lemma runAllChecks_checks:
  "checks (runAllChecks today salary hold opts) =
     sort_key (\<lambda>c. - savings c)
       (if recommended_or_new (checkRegime salary
             \<lparr>parentsSenior = Some (or_false (parentsSenior opts)), selfSenior = None\<rparr>) = ''new''
        then
          [checkRegime salary
             \<lparr>parentsSenior = Some (or_false (parentsSenior opts)), selfSenior = None\<rparr>,
           suppress (check80c salary),
           suppress (check80d salary
             \<lparr>parentsSenior = Some (or_false (parentsSenior opts)), selfSenior = None\<rparr>),
           suppress (checkHra salary),
           checkCapitalGains today (case hold of None \<Rightarrow> empty_holdings | Some h \<Rightarrow> h)
             \<lparr>asOf = cgAsOf opts\<rparr>,
           suppress (checkNps salary),
           suppress (checkHomeLoan salary)]
        else
          [checkRegime salary
             \<lparr>parentsSenior = Some (or_false (parentsSenior opts)), selfSenior = None\<rparr>,
           check80c salary,
           check80d salary
             \<lparr>parentsSenior = Some (or_false (parentsSenior opts)), selfSenior = None\<rparr>,
           checkHra salary,
           checkCapitalGains today (case hold of None \<Rightarrow> empty_holdings | Some h \<Rightarrow> h)
             \<lparr>asOf = cgAsOf opts\<rparr>,
           checkNps salary,
           checkHomeLoan salary])"
  unfolding runAllChecks_def createTaxHawkResult_def Let_def
  by (simp only: Report.select_convs)

lemma by_id_sorted_distinct:
  assumes "distinct (map check_id xs)" and "x \<in> set xs"
  shows "by_id (check_id x) (sort_key k xs) = Some x"
proof (rule by_id_sorted)
  show "x \<in> set xs" by (rule assms(2))
  show "check_id x = check_id x" by simp
  show "\<And>y. y \<in> set xs \<Longrightarrow> check_id y = check_id x \<Longrightarrow> y = x"
    using assms by (meson distinct_map inj_onD)
qed

lemma runAllChecks_findings:
  fixes today salary hold opts
  defines "r \<equiv> runAllChecks today salary hold opts"
    and "co \<equiv> \<lparr>parentsSenior = Some (or_false (parentsSenior opts)), selfSenior = None\<rparr>"
  defines "reg \<equiv> checkRegime salary co"
    and "keep \<equiv> (\<lambda>c. if 0 < savings (checkRegime salary co) then c else suppress c)"
  shows "by_id ''regime_arbitrage'' (checks r) = Some reg"
    and "by_id ''80c_gap'' (checks r) = Some (keep (check80c salary))"
    and "by_id ''80d_check'' (checks r) = Some (keep (check80d salary co))"
    and "by_id ''hra_optimizer'' (checks r) = Some (keep (checkHra salary))"
    and "by_id ''capital_gains'' (checks r) =
           Some (checkCapitalGains today (case hold of None \<Rightarrow> empty_holdings | Some h \<Rightarrow> h)
                   \<lparr>asOf = cgAsOf opts\<rparr>)"
    and "by_id ''nps_check'' (checks r) = Some (keep (checkNps salary))"
    and "by_id ''home_loan_check'' (checks r) = Some (keep (checkHomeLoan salary))"
    and "length (checks r) = 7"
    and "sum_list (map savings (checks r)) =
           savings reg + savings (keep (check80c salary)) + savings (keep (check80d salary co)) +
           savings (keep (checkHra salary)) +
           savings (checkCapitalGains today (case hold of None \<Rightarrow> empty_holdings | Some h \<Rightarrow> h)
                   \<lparr>asOf = cgAsOf opts\<rparr>) +
           savings (keep (checkNps salary)) + savings (keep (checkHomeLoan salary))"
proof -
  let ?cg = "checkCapitalGains today (case hold of None \<Rightarrow> empty_holdings | Some h \<Rightarrow> h)
               \<lparr>asOf = cgAsOf opts\<rparr>"
  let ?all = "[reg, keep (check80c salary), keep (check80d salary co), keep (checkHra salary),
               ?cg, keep (checkNps salary), keep (checkHomeLoan salary)]"
  have cs: "checks r = sort_key (\<lambda>c. - savings c) ?all"
    unfolding r_def keep_def reg_def co_def
    by (simp only: runAllChecks_checks recommended_or_new_checkRegime) simp
  have id_keep: "check_id (keep c) = check_id c" for c
    by (simp add: keep_def check_id_suppress)
  have d: "distinct (map check_id ?all)"
    by (simp add: id_keep reg_def check_ids)
  have at: "by_id (check_id x) (checks r) = Some x" if "x \<in> set ?all" for x
    unfolding cs using d that by (rule by_id_sorted_distinct)
  show "by_id ''regime_arbitrage'' (checks r) = Some reg"
    using at [of reg] by (simp add: reg_def check_ids)
  show "by_id ''80c_gap'' (checks r) = Some (keep (check80c salary))"
    using at [of "keep (check80c salary)"] by (simp add: id_keep check_ids)
  show "by_id ''80d_check'' (checks r) = Some (keep (check80d salary co))"
    using at [of "keep (check80d salary co)"] by (simp add: id_keep check_ids)
  show "by_id ''hra_optimizer'' (checks r) = Some (keep (checkHra salary))"
    using at [of "keep (checkHra salary)"] by (simp add: id_keep check_ids)
  show "by_id ''capital_gains'' (checks r) = Some ?cg"
    using at [of ?cg] by (simp add: check_ids)
  show "by_id ''nps_check'' (checks r) = Some (keep (checkNps salary))"
    using at [of "keep (checkNps salary)"] by (simp add: id_keep check_ids)
  show "by_id ''home_loan_check'' (checks r) = Some (keep (checkHomeLoan salary))"
    using at [of "keep (checkHomeLoan salary)"] by (simp add: id_keep check_ids)
  show "length (checks r) = 7"
    unfolding cs by (simp only: length_sort) simp
  show "sum_list (map savings (checks r)) =
           savings reg + savings (keep (check80c salary)) + savings (keep (check80d salary co)) +
           savings (keep (checkHra salary)) + savings ?cg +
           savings (keep (checkNps salary)) + savings (keep (checkHomeLoan salary))"
    unfolding cs by (simp only: sum_list_sort_key) simp
qed

text \<open>
  Claim C1. For every clock, salary profile, optional holdings and options, the report of
  \<open>runAllChecks\<close> holds exactly one finding of the regime check and one of the capital
  gains check among its seven, and its \<open>total_savings\<close> is the sum of the savings
  of these two. When the recommended regime (the one the regime finding stores, which is
  the one of the report) is old, \<open>total_savings\<close> is at most the sum of the savings
  of the seven findings; when it is new, \<open>total_savings\<close> is the savings of the
  capital gains finding.
\<close>

theorem C1_total_savings:
  "\<exists>reg cg.
     by_id ''regime_arbitrage'' (checks (runAllChecks today salary hold opts)) = Some reg \<and>
     by_id ''capital_gains'' (checks (runAllChecks today salary hold opts)) = Some cg \<and>
     map_of (details reg) ''recommended_regime''
       = Some (Str (recommended_regime (runAllChecks today salary hold opts))) \<and>
     length (checks (runAllChecks today salary hold opts)) = 7 \<and>
     total_savings (runAllChecks today salary hold opts) = savings reg + savings cg \<and>
     (recommended_regime (runAllChecks today salary hold opts) = ''old'' \<longrightarrow>
        total_savings (runAllChecks today salary hold opts)
          \<le> sum_list (map savings (checks (runAllChecks today salary hold opts)))) \<and>
     (recommended_regime (runAllChecks today salary hold opts) = ''new'' \<longrightarrow>
        total_savings (runAllChecks today salary hold opts) = savings cg)"
proof -
  let ?r = "runAllChecks today salary hold opts"
  let ?co = "\<lparr>parentsSenior = Some (or_false (parentsSenior opts)), selfSenior = None\<rparr>"
  let ?reg = "checkRegime salary ?co"
  let ?cg = "checkCapitalGains today (case hold of None \<Rightarrow> empty_holdings | Some h \<Rightarrow> h)
               \<lparr>asOf = cgAsOf opts\<rparr>"
  have rec: "recommended_regime ?r = (if 0 < savings ?reg then ''old'' else ''new'')"
    by (simp only: runAllChecks_recommended recommended_or_new_checkRegime)
  have total: "total_savings ?r = savings ?reg + savings ?cg"
    by (rule runAllChecks_total)
  have b1: "by_id ''regime_arbitrage'' (checks ?r) = Some ?reg"
    by (rule runAllChecks_findings(1))
  have b2: "by_id ''capital_gains'' (checks ?r) = Some ?cg"
    by (rule runAllChecks_findings(5))
  have m: "map_of (details ?reg) ''recommended_regime'' = Some (Str (recommended_regime ?r))"
    by (simp only: rec checkRegime_recommended)
  have len: "length (checks ?r) = 7"
    by (rule runAllChecks_findings(8))
  have old: "total_savings ?r \<le> sum_list (map savings (checks ?r))"
    if "recommended_regime ?r = ''old''"
  proof -
    from that rec have pos: "0 < savings ?reg" by (simp split: if_splits)
    show ?thesis
      using savings_check80c [of salary] savings_check80d [of salary ?co]
        savings_checkNps [of salary]
      by (simp add: total runAllChecks_findings(9) pos savings_checkHra savings_checkHomeLoan)
  qed
  have new: "total_savings ?r = savings ?cg" if "recommended_regime ?r = ''new''"
  proof -
    from that rec have "\<not> 0 < savings ?reg" by (simp split: if_splits)
    with checkRegime_savings_nonneg [of salary ?co] have "savings ?reg = 0" by simp
    then show ?thesis by (simp add: total)
  qed
  from b1 b2 m len total old new show ?thesis by blast
qed

theorem C1_total_savings_witness:
  "recommended_regime (runAllChecks a_day PRIYA_PROFILE None no_opts) = ''old'' \<and>
   total_savings (runAllChecks a_day PRIYA_PROFILE None no_opts) = 16120 \<and>
   sum_list (map savings (checks (runAllChecks a_day PRIYA_PROFILE None no_opts))) = 63856 \<and>
   total_savings (runAllChecks a_day PRIYA_PROFILE None no_opts)
     \<le> sum_list (map savings (checks (runAllChecks a_day PRIYA_PROFILE None no_opts))) \<and>
   recommended_regime
     (runAllChecks a_day LOW_EARNER (Some ESTIMATED_HOLDINGS)
        \<lparr>parentsSenior = None, selfSenior = None, cgAsOf = Some fy_end_2025\<rparr>) = ''new'' \<and>
   by_id ''capital_gains''
     (checks (runAllChecks a_day LOW_EARNER (Some ESTIMATED_HOLDINGS)
        \<lparr>parentsSenior = None, selfSenior = None, cgAsOf = Some fy_end_2025\<rparr>)) =
     Some (checkCapitalGains a_day ESTIMATED_HOLDINGS \<lparr>asOf = Some fy_end_2025\<rparr>) \<and>
   savings (checkCapitalGains a_day ESTIMATED_HOLDINGS \<lparr>asOf = Some fy_end_2025\<rparr>) = 11375 \<and>
   total_savings
     (runAllChecks a_day LOW_EARNER (Some ESTIMATED_HOLDINGS)
        \<lparr>parentsSenior = None, selfSenior = None, cgAsOf = Some fy_end_2025\<rparr>) = 11375"
proof -
  let ?o = "\<lparr>parentsSenior = None, selfSenior = None, cgAsOf = Some fy_end_2025\<rparr>"
  let ?n = "runAllChecks a_day LOW_EARNER (Some ESTIMATED_HOLDINGS) ?o"
  have o: "recommended_regime (runAllChecks a_day PRIYA_PROFILE None no_opts) = ''old''"
    by code_simp
  have t: "total_savings (runAllChecks a_day PRIYA_PROFILE None no_opts) = 16120"
    by code_simp
  have s: "sum_list (map savings (checks (runAllChecks a_day PRIYA_PROFILE None no_opts))) = 63856"
    by code_simp
  from C1_total_savings [of a_day PRIYA_PROFILE None no_opts] o
  have le: "total_savings (runAllChecks a_day PRIYA_PROFILE None no_opts)
     \<le> sum_list (map savings (checks (runAllChecks a_day PRIYA_PROFILE None no_opts)))"
    by blast
  have "recommended_or_new (checkRegime LOW_EARNER
          \<lparr>parentsSenior = Some (or_false (parentsSenior ?o)), selfSenior = None\<rparr>) = ''new''"
    by code_simp
  then have n: "recommended_regime ?n = ''new''"
    by (simp only: runAllChecks_recommended)
  have cg: "by_id ''capital_gains'' (checks ?n) =
      Some (checkCapitalGains a_day ESTIMATED_HOLDINGS \<lparr>asOf = Some fy_end_2025\<rparr>)"
    using runAllChecks_findings(5) [of a_day LOW_EARNER "Some ESTIMATED_HOLDINGS" ?o] by simp
  from C1_total_savings [of a_day LOW_EARNER "Some ESTIMATED_HOLDINGS" ?o] n cg
  have tn: "total_savings ?n
      = savings (checkCapitalGains a_day ESTIMATED_HOLDINGS \<lparr>asOf = Some fy_end_2025\<rparr>)"
    by auto
  from o t s le n cg tn estimated_cg(2) show ?thesis by simp
qed

subsection \<open>Suppression under the new regime\<close>

lemma finding_suppress:
  "finding (suppress c) =
     (if 0 < savings c then
        [Lit ''Not applicable under new regime '',
         Lit ''(would save '', Rupee, INR (savings c), Lit '' under old regime)'']
      else finding c)"
  by (simp add: suppress_def Let_def)

lemma suppress_frame:
  "check_id (suppress c) = check_id c \<and> check_name (suppress c) = check_name c \<and>
   action (suppress c) = action c \<and> deadline (suppress c) = deadline c \<and>
   confidence (suppress c) = confidence c \<and> explanation (suppress c) = explanation c \<and>
   details (suppress c) = details c"
  by (simp add: suppress_def Let_def)

lemma original_findings:
  "[Lit ''Not applicable under new regime '',
    Lit ''(would save '', Rupee, INR x, Lit '' under old regime)'']
     \<notin> {finding (check80c s), finding (check80d s co), finding (checkHra s),
         finding (checkNps s), finding (checkHomeLoan s)}"
  by (simp add: check80c_def check80d_def checkHra_def checkNps_def checkHomeLoan_def Let_def)

text \<open>
  Claim C3 as stated fails in the wording of the rewritten text: the orchestrator's text
  ends in \<^verbatim>\<open>under old regime)\<close>, not in \<^verbatim>\<open>under old)\<close>. For the profile of the test
  \<^verbatim>\<open>low salary -> new regime wins\<close> the regime check recommends \<^verbatim>\<open>'new'\<close>, the 80C check
  had savings 31200, and the 80C finding of the report reads \<^verbatim>\<open>Not applicable under new
  regime (would save\<close> (rupee sign) \<^verbatim>\<open>31,200 under old regime)\<close>.
\<close>

theorem C3_text_names_old_regime:
  "map_of (details (checkRegime LOW_EARNER \<lparr>parentsSenior = Some False, selfSenior = None\<rparr>))
     ''recommended_regime'' = Some (Str ''new'') \<and>
   savings (check80c LOW_EARNER) = 31200 \<and>
   map_option finding (by_id ''80c_gap'' (checks (runAllChecks a_day LOW_EARNER None no_opts))) =
     Some [Lit ''Not applicable under new regime '',
           Lit ''(would save '', Rupee, INR 31200, Lit '' under old regime)''] \<and>
   map_option finding (by_id ''80c_gap'' (checks (runAllChecks a_day LOW_EARNER None no_opts))) \<noteq>
     Some [Lit ''Not applicable under new regime '',
           Lit ''(would save '', Rupee, INR 31200, Lit '' under old)'']"
  by code_simp

text \<open>
  Claim C3, amended. Regime interdependency: whenever the regime finding of the report
  stores \<^verbatim>\<open>'new'\<close> as recommended regime, the report holds the five deduction checks (80C
  gap, 80D, HRA, NPS, home loan) with status not applicable and savings 0; the finding text
  is \<^verbatim>\<open>Not applicable under new regime (would save\<close> (rupee sign) X \<^verbatim>\<open>under old regime)\<close>,
  X the savings the check returned in the Indian number format, exactly when those savings
  were above 0, and otherwise the text the check returned, which never is of that form;
  every other field of these findings is the one the check returned. The capital gains
  finding and the regime finding are the ones their checks returned.
\<close>

theorem C3_regime_interdependency:
  assumes "by_id ''regime_arbitrage'' (checks (runAllChecks today salary hold opts)) = Some reg"
    and "map_of (details reg) ''recommended_regime'' = Some (Str ''new'')"
  shows
    "reg = checkRegime salary
             \<lparr>parentsSenior = Some (or_false (parentsSenior opts)), selfSenior = None\<rparr> \<and>
     by_id ''capital_gains'' (checks (runAllChecks today salary hold opts)) =
       Some (checkCapitalGains today (case hold of None \<Rightarrow> empty_holdings | Some h \<Rightarrow> h)
               \<lparr>asOf = cgAsOf opts\<rparr>) \<and>
     by_id ''80c_gap'' (checks (runAllChecks today salary hold opts)) =
       Some (suppress (check80c salary)) \<and>
     by_id ''80d_check'' (checks (runAllChecks today salary hold opts)) =
       Some (suppress (check80d salary
               \<lparr>parentsSenior = Some (or_false (parentsSenior opts)), selfSenior = None\<rparr>)) \<and>
     by_id ''hra_optimizer'' (checks (runAllChecks today salary hold opts)) =
       Some (suppress (checkHra salary)) \<and>
     by_id ''nps_check'' (checks (runAllChecks today salary hold opts)) =
       Some (suppress (checkNps salary)) \<and>
     by_id ''home_loan_check'' (checks (runAllChecks today salary hold opts)) =
       Some (suppress (checkHomeLoan salary)) \<and>
     (\<forall>c. status (suppress c) = NOT_APPLICABLE \<and> savings (suppress c) = 0 \<and>
          finding (suppress c) =
            (if 0 < savings c then
               [Lit ''Not applicable under new regime '',
                Lit ''(would save '', Rupee, INR (savings c), Lit '' under old regime)'']
             else finding c) \<and>
          check_id (suppress c) = check_id c \<and> check_name (suppress c) = check_name c \<and>
          action (suppress c) = action c \<and> deadline (suppress c) = deadline c \<and>
          confidence (suppress c) = confidence c \<and> explanation (suppress c) = explanation c \<and>
          details (suppress c) = details c) \<and>
     (\<forall>x. [Lit ''Not applicable under new regime '',
           Lit ''(would save '', Rupee, INR x, Lit '' under old regime)'']
            \<notin> {finding (check80c salary),
                finding (check80d salary
                  \<lparr>parentsSenior = Some (or_false (parentsSenior opts)), selfSenior = None\<rparr>),
                finding (checkHra salary), finding (checkNps salary),
                finding (checkHomeLoan salary)})"
proof -
  let ?r = "runAllChecks today salary hold opts"
  let ?co = "\<lparr>parentsSenior = Some (or_false (parentsSenior opts)), selfSenior = None\<rparr>"
  let ?reg = "checkRegime salary ?co"
  have reg: "reg = ?reg"
    using assms(1) runAllChecks_findings(1) [of today salary hold opts] by simp
  have "Str (if 0 < savings ?reg then ''old'' else ''new'') = Str ''new''"
    using assms(2) unfolding reg checkRegime_recommended by simp
  then have new: "\<not> 0 < savings ?reg" by (simp split: if_splits)
  have frame: "status (suppress c) = NOT_APPLICABLE \<and> savings (suppress c) = 0 \<and>
          finding (suppress c) =
            (if 0 < savings c then
               [Lit ''Not applicable under new regime '',
                Lit ''(would save '', Rupee, INR (savings c), Lit '' under old regime)'']
             else finding c) \<and>
          check_id (suppress c) = check_id c \<and> check_name (suppress c) = check_name c \<and>
          action (suppress c) = action c \<and> deadline (suppress c) = deadline c \<and>
          confidence (suppress c) = confidence c \<and> explanation (suppress c) = explanation c \<and>
          details (suppress c) = details c" for c
    using suppress_frame [of c]
    by (simp only: status_suppress savings_suppress finding_suppress)
  have orig: "[Lit ''Not applicable under new regime '',
           Lit ''(would save '', Rupee, INR x, Lit '' under old regime)'']
            \<notin> {finding (check80c salary), finding (check80d salary ?co),
                finding (checkHra salary), finding (checkNps salary),
                finding (checkHomeLoan salary)}" for x
    by (rule original_findings)
  have ids: "by_id ''capital_gains'' (checks ?r) =
       Some (checkCapitalGains today (case hold of None \<Rightarrow> empty_holdings | Some h \<Rightarrow> h)
               \<lparr>asOf = cgAsOf opts\<rparr>) \<and>
     by_id ''80c_gap'' (checks ?r) = Some (suppress (check80c salary)) \<and>
     by_id ''80d_check'' (checks ?r) = Some (suppress (check80d salary ?co)) \<and>
     by_id ''hra_optimizer'' (checks ?r) = Some (suppress (checkHra salary)) \<and>
     by_id ''nps_check'' (checks ?r) = Some (suppress (checkNps salary)) \<and>
     by_id ''home_loan_check'' (checks ?r) = Some (suppress (checkHomeLoan salary))"
    using new runAllChecks_findings(2-7) [of today salary hold opts]
    by (simp only: if_False)
  from reg ids frame orig show ?thesis by blast
qed

theorem C3_regime_interdependency_witness:
  "by_id ''regime_arbitrage'' (checks (runAllChecks a_day LOW_EARNER None no_opts)) =
     Some (checkRegime LOW_EARNER
             \<lparr>parentsSenior = Some (or_false (parentsSenior no_opts)), selfSenior = None\<rparr>) \<and>
   map_of (details (checkRegime LOW_EARNER
             \<lparr>parentsSenior = Some (or_false (parentsSenior no_opts)), selfSenior = None\<rparr>))
     ''recommended_regime'' = Some (Str ''new'') \<and>
   savings (check80c LOW_EARNER) = 31200 \<and>
   by_id ''80c_gap'' (checks (runAllChecks a_day LOW_EARNER None no_opts)) =
     Some (suppress (check80c LOW_EARNER)) \<and>
   status (suppress (check80c LOW_EARNER)) = NOT_APPLICABLE \<and>
   savings (suppress (check80c LOW_EARNER)) = 0 \<and>
   finding (suppress (check80c LOW_EARNER)) =
     [Lit ''Not applicable under new regime '',
      Lit ''(would save '', Rupee, INR 31200, Lit '' under old regime)''] \<and>
   savings (checkHra LOW_EARNER) = 0 \<and>
   by_id ''hra_optimizer'' (checks (runAllChecks a_day LOW_EARNER None no_opts)) =
     Some (suppress (checkHra LOW_EARNER)) \<and>
   status (suppress (checkHra LOW_EARNER)) = NOT_APPLICABLE \<and>
   finding (suppress (checkHra LOW_EARNER)) = [Lit ''No HRA received or no rent paid'']"
proof -
  let ?co = "\<lparr>parentsSenior = Some (or_false (parentsSenior no_opts)), selfSenior = None\<rparr>"
  have h1: "by_id ''regime_arbitrage'' (checks (runAllChecks a_day LOW_EARNER None no_opts)) =
     Some (checkRegime LOW_EARNER ?co)"
    by code_simp
  have h2: "map_of (details (checkRegime LOW_EARNER ?co)) ''recommended_regime''
     = Some (Str ''new'')"
    by code_simp
  have v1: "savings (check80c LOW_EARNER) = 31200" by code_simp
  have v2: "savings (checkHra LOW_EARNER) = 0" by code_simp
  have v3: "finding (checkHra LOW_EARNER) = [Lit ''No HRA received or no rent paid'']"
    by code_simp
  note c3 = C3_regime_interdependency [OF h1 h2]
  from c3 have f: "finding (suppress c) =
      (if 0 < savings c then
         [Lit ''Not applicable under new regime '',
          Lit ''(would save '', Rupee, INR (savings c), Lit '' under old regime)'']
       else finding c)" for c
    by blast
  have f1: "finding (suppress (check80c LOW_EARNER)) =
      [Lit ''Not applicable under new regime '',
       Lit ''(would save '', Rupee, INR 31200, Lit '' under old regime)'']"
    using f [of "check80c LOW_EARNER"] by (simp add: v1)
  have f2: "finding (suppress (checkHra LOW_EARNER)) = [Lit ''No HRA received or no rent paid'']"
    using f [of "checkHra LOW_EARNER"] by (simp add: v2 v3)
  from c3 h1 h2 v1 v2 f1 f2 show ?thesis by blast
qed

lemma checkRegime_below_60:
  assumes "selfSenior co = None"
  shows "\<exists>t. map_of (details (checkRegime s co)) ''old_regime_taxable'' = Some (Num t) \<and>
             map_of (details (checkRegime s co)) ''old_regime_tax'' =
               Some (Num (total_tax (calculateOldRegimeTax t (financial_year s) ''below_60'')))"
  using assms by (simp add: checkRegime_def Let_def or_false_def)

lemma check80d_self_limit:
  assumes "selfSenior co = None"
  shows "map_of (details (check80d s co)) ''self_family_limit'' =
           Some (Num LIMIT_80D_SELF_BELOW_60)"
  using assms by (simp add: check80d_def Let_def or_false_def)

text \<open>
  Claim C10. The report does not depend on the option \<open>selfSenior\<close>: setting it to any
  value leaves the report of \<open>runAllChecks\<close> unchanged. The regime finding of the
  report is always computed for the age category below 60 (its old regime tax is the old
  regime calculator at that category) and the 80D finding always carries the self limit
  for below 60, so the senior branches of the two checks are not reached from
  \<open>runAllChecks\<close>.
\<close>

theorem C10_self_senior_ignored:
  "runAllChecks today salary hold (opts\<lparr>selfSenior := v\<rparr>) = runAllChecks today salary hold opts \<and>
   (\<exists>reg d t.
      by_id ''regime_arbitrage'' (checks (runAllChecks today salary hold opts)) = Some reg \<and>
      by_id ''80d_check'' (checks (runAllChecks today salary hold opts)) = Some d \<and>
      map_of (details reg) ''old_regime_taxable'' = Some (Num t) \<and>
      map_of (details reg) ''old_regime_tax'' =
        Some (Num (total_tax (calculateOldRegimeTax t (financial_year salary) ''below_60''))) \<and>
      map_of (details d) ''self_family_limit'' = Some (Num LIMIT_80D_SELF_BELOW_60))"
proof -
  let ?r = "runAllChecks today salary hold opts"
  let ?co = "\<lparr>parentsSenior = Some (or_false (parentsSenior opts)), selfSenior = None\<rparr>"
  have p: "parentsSenior (opts\<lparr>selfSenior := v\<rparr>) = parentsSenior opts" by simp
  have c: "cgAsOf (opts\<lparr>selfSenior := v\<rparr>) = cgAsOf opts" by simp
  have same: "runAllChecks today salary hold (opts\<lparr>selfSenior := v\<rparr>) = ?r"
    unfolding runAllChecks_def by (simp only: p c)
  have none: "selfSenior ?co = None" by simp
  obtain t where t:
    "map_of (details (checkRegime salary ?co)) ''old_regime_taxable'' = Some (Num t)"
    "map_of (details (checkRegime salary ?co)) ''old_regime_tax'' =
       Some (Num (total_tax (calculateOldRegimeTax t (financial_year salary) ''below_60'')))"
    using checkRegime_below_60 [OF none, of salary] by blast
  have b1: "by_id ''regime_arbitrage'' (checks ?r) = Some (checkRegime salary ?co)"
    by (rule runAllChecks_findings(1))
  let ?d = "if 0 < savings (checkRegime salary ?co) then check80d salary ?co
            else suppress (check80d salary ?co)"
  have b2: "by_id ''80d_check'' (checks ?r) = Some ?d"
    by (rule runAllChecks_findings(3))
  have "details ?d = details (check80d salary ?co)"
    using suppress_frame [of "check80d salary ?co"] by simp
  then have d: "map_of (details ?d) ''self_family_limit'' = Some (Num LIMIT_80D_SELF_BELOW_60)"
    using check80d_self_limit [OF none, of salary] by simp
  from same b1 b2 t d show ?thesis by blast
qed


subsection \<open>Savings of an opportunity\<close>

text \<open>
  Claim C9 as stated fails. The 80C, 80D and NPS checks return an opportunity whenever
  the gap is above zero, and their savings are the gap at the marginal rate of the old
  regime gross total income, rounded: at a gross salary of 300000 that income is 247600,
  the rate is 0 and the savings are 0. The capital gains check returns an opportunity for
  a holding period alert alone: one share held eleven months with a gain, nothing to
  harvest, savings 0.
\<close>

theorem C9_opportunity_with_zero_savings:
  "status (check80c (LOW_EARNER\<lparr>gross_salary := 300000\<rparr>)) = OPPORTUNITY \<and>
   savings (check80c (LOW_EARNER\<lparr>gross_salary := 300000\<rparr>)) = 0 \<and>
   status (check80d (LOW_EARNER\<lparr>gross_salary := 300000\<rparr>)
     \<lparr>parentsSenior = None, selfSenior = None\<rparr>) = OPPORTUNITY \<and>
   savings (check80d (LOW_EARNER\<lparr>gross_salary := 300000\<rparr>)
     \<lparr>parentsSenior = None, selfSenior = None\<rparr>) = 0 \<and>
   status (checkNps (LOW_EARNER\<lparr>gross_salary := 300000\<rparr>)) = OPPORTUNITY \<and>
   savings (checkNps (LOW_EARNER\<lparr>gross_salary := 300000\<rparr>)) = 0 \<and>
   status (checkCapitalGains a_day RECENT_HOLDINGS \<lparr>asOf = Some fy_end_2025\<rparr>) = OPPORTUNITY \<and>
   savings (checkCapitalGains a_day RECENT_HOLDINGS \<lparr>asOf = Some fy_end_2025\<rparr>) = 0"
  using three_lakh(1-6) recent_cg by blast

text \<open>
  Claim C9, amended. An opportunity that the regime check returns has savings above 0. The
  80C, 80D and NPS checks return an opportunity exactly when the amount left to deduct (the
  80C gap, the recommended 80D premium, the NPS gap) is above 0, and its savings are above 0
  exactly when that amount times the marginal rate (the old regime rate below 60 at the
  gross total income) times 1.04 is at least one half: always when the gross total income
  is above 250000 and the amount is at least 10, never (the savings are 0) when the gross
  total income is at most 250000. An opportunity that the capital gains check returns
  reports the harvestable gain as \<^verbatim>\<open>exemption_used\<close>, which is not negative, and its
  savings are above 0 exactly when that gain times the rate 0.125 times 1.04 is at least
  one half: always when the gain is at least 4, never (the savings are 0) when it is at
  most 3, as for a holding period alert with nothing to harvest. An opportunity that the
  HRA or home loan check returns has savings 0.
\<close>

theorem C9_opportunity_savings:
  fixes s :: SalaryProfile and co :: check_opts and today :: date and h :: Holdings
    and cgo :: cg_opts
  defines "gti \<equiv> ob_gross_total_income (computeOldRegimeTaxableIncome s no_overrides)"
    and "rate \<equiv>
      getMarginalRate (ob_gross_total_income (computeOldRegimeTaxableIncome s no_overrides))
        ''old'' (financial_year s) ''below_60''"
    and "gap80c \<equiv> LIMIT_80C - (deduction_80c s + deduction_80ccc s + deduction_80ccd_1 s)"
    and "premium \<equiv>
      (if deduction_80d s = 0 then
         (if or_false (parentsSenior co) then LIMIT_80D_PARENTS_SENIOR
          else LIMIT_80D_PARENTS_BELOW_60)
       else
         (if or_false (selfSenior co) then LIMIT_80D_SELF_SENIOR else LIMIT_80D_SELF_BELOW_60) +
         (if or_false (parentsSenior co) then LIMIT_80D_PARENTS_SENIOR
          else LIMIT_80D_PARENTS_BELOW_60) - deduction_80d s)"
    and "gapNps \<equiv> LIMIT_80CCD_1B - deduction_80ccd_1b s"
    and "cg \<equiv> checkCapitalGains today h cgo"
  shows
    "(status (checkRegime s co) = OPPORTUNITY \<longrightarrow> 0 < savings (checkRegime s co)) \<and>
     (status (check80c s) = OPPORTUNITY \<longleftrightarrow> 0 < gap80c) \<and>
     (status (check80c s) = OPPORTUNITY \<longrightarrow>
        (0 < savings (check80c s) \<longleftrightarrow> 1 / 2 \<le> gap80c * rate * (1 + CESS_RATE)) \<and>
        (250000 < gti \<and> 10 \<le> gap80c \<longrightarrow> 0 < savings (check80c s)) \<and>
        (gti \<le> 250000 \<longrightarrow> savings (check80c s) = 0)) \<and>
     (status (check80d s co) = OPPORTUNITY \<longleftrightarrow> 0 < premium) \<and>
     (status (check80d s co) = OPPORTUNITY \<longrightarrow>
        (0 < savings (check80d s co) \<longleftrightarrow> 1 / 2 \<le> premium * rate * (1 + CESS_RATE)) \<and>
        (250000 < gti \<and> 10 \<le> premium \<longrightarrow> 0 < savings (check80d s co)) \<and>
        (gti \<le> 250000 \<longrightarrow> savings (check80d s co) = 0)) \<and>
     (status (checkNps s) = OPPORTUNITY \<longleftrightarrow> 0 < gapNps) \<and>
     (status (checkNps s) = OPPORTUNITY \<longrightarrow>
        (0 < savings (checkNps s) \<longleftrightarrow> 1 / 2 \<le> gapNps * rate * (1 + CESS_RATE)) \<and>
        (250000 < gti \<and> 10 \<le> gapNps \<longrightarrow> 0 < savings (checkNps s)) \<and>
        (gti \<le> 250000 \<longrightarrow> savings (checkNps s) = 0)) \<and>
     (status cg = OPPORTUNITY \<longrightarrow>
        (\<exists>x. map_of (details cg) ''exemption_used'' = Some (Num x) \<and> 0 \<le> x \<and>
             (0 < savings cg \<longleftrightarrow> 1 / 2 \<le> x * LTCG_RATE * (1 + CESS_RATE)) \<and>
             (4 \<le> x \<longrightarrow> 0 < savings cg) \<and>
             (x \<le> 3 \<longrightarrow> savings cg = 0))) \<and>
     (status (checkHra s) = OPPORTUNITY \<longrightarrow> savings (checkHra s) = 0) \<and>
     (status (checkHomeLoan s) = OPPORTUNITY \<longrightarrow> savings (checkHomeLoan s) = 0)"
proof -
  have reg: "status (checkRegime s co) = OPPORTUNITY \<longrightarrow> 0 < savings (checkRegime s co)"
    by (simp add: checkRegime_status split: if_splits)
  have ded: "0 < a \<and>
        (0 < Math_round (a * rate * (1 + CESS_RATE)) \<longleftrightarrow> 1 / 2 \<le> a * rate * (1 + CESS_RATE)) \<and>
        (250000 < gti \<and> 10 \<le> a \<longrightarrow> 0 < Math_round (a * rate * (1 + CESS_RATE))) \<and>
        (gti \<le> 250000 \<longrightarrow> Math_round (a * rate * (1 + CESS_RATE)) = 0)"
    if "0 < a" for a
    using that saving_pos [of gti a "financial_year s"]
      saving_zero [of gti a "financial_year s"]
    by (simp add: Math_round_pos_iff rate_def gti_def)
  have c80c: "status (check80c s) = OPPORTUNITY \<longrightarrow>
        0 < gap80c \<and>
        (0 < savings (check80c s) \<longleftrightarrow> 1 / 2 \<le> gap80c * rate * (1 + CESS_RATE)) \<and>
        (250000 < gti \<and> 10 \<le> gap80c \<longrightarrow> 0 < savings (check80c s)) \<and>
        (gti \<le> 250000 \<longrightarrow> savings (check80c s) = 0)"
  proof
    assume o: "status (check80c s) = OPPORTUNITY"
    have sv: "savings (check80c s) = Math_round (gap80c * rate * (1 + CESS_RATE))"
      unfolding gap80c_def rate_def by (rule check80c_opportunity(2) [OF o])
    have "0 < gap80c" unfolding gap80c_def by (rule check80c_opportunity(1) [OF o])
    from ded [OF this] show "0 < gap80c \<and>
        (0 < savings (check80c s) \<longleftrightarrow> 1 / 2 \<le> gap80c * rate * (1 + CESS_RATE)) \<and>
        (250000 < gti \<and> 10 \<le> gap80c \<longrightarrow> 0 < savings (check80c s)) \<and>
        (gti \<le> 250000 \<longrightarrow> savings (check80c s) = 0)"
      unfolding sv .
  qed
  have c80d: "status (check80d s co) = OPPORTUNITY \<longrightarrow>
        0 < premium \<and>
        (0 < savings (check80d s co) \<longleftrightarrow> 1 / 2 \<le> premium * rate * (1 + CESS_RATE)) \<and>
        (250000 < gti \<and> 10 \<le> premium \<longrightarrow> 0 < savings (check80d s co)) \<and>
        (gti \<le> 250000 \<longrightarrow> savings (check80d s co) = 0)"
  proof
    assume o: "status (check80d s co) = OPPORTUNITY"
    have sv: "savings (check80d s co) = Math_round (premium * rate * (1 + CESS_RATE))"
      unfolding premium_def rate_def by (rule check80d_opportunity(2) [OF o])
    have "0 < premium" unfolding premium_def by (rule check80d_opportunity(1) [OF o])
    from ded [OF this] show "0 < premium \<and>
        (0 < savings (check80d s co) \<longleftrightarrow> 1 / 2 \<le> premium * rate * (1 + CESS_RATE)) \<and>
        (250000 < gti \<and> 10 \<le> premium \<longrightarrow> 0 < savings (check80d s co)) \<and>
        (gti \<le> 250000 \<longrightarrow> savings (check80d s co) = 0)"
      unfolding sv .
  qed
  have cnps: "status (checkNps s) = OPPORTUNITY \<longrightarrow>
        0 < gapNps \<and>
        (0 < savings (checkNps s) \<longleftrightarrow> 1 / 2 \<le> gapNps * rate * (1 + CESS_RATE)) \<and>
        (250000 < gti \<and> 10 \<le> gapNps \<longrightarrow> 0 < savings (checkNps s)) \<and>
        (gti \<le> 250000 \<longrightarrow> savings (checkNps s) = 0)"
  proof
    assume o: "status (checkNps s) = OPPORTUNITY"
    have sv: "savings (checkNps s) = Math_round (gapNps * rate * (1 + CESS_RATE))"
      unfolding gapNps_def rate_def by (rule checkNps_opportunity(2) [OF o])
    have "0 < gapNps" unfolding gapNps_def by (rule checkNps_opportunity(1) [OF o])
    from ded [OF this] show "0 < gapNps \<and>
        (0 < savings (checkNps s) \<longleftrightarrow> 1 / 2 \<le> gapNps * rate * (1 + CESS_RATE)) \<and>
        (250000 < gti \<and> 10 \<le> gapNps \<longrightarrow> 0 < savings (checkNps s)) \<and>
        (gti \<le> 250000 \<longrightarrow> savings (checkNps s) = 0)"
      unfolding sv .
  qed
  have ccg: "status cg = OPPORTUNITY \<longrightarrow>
        (\<exists>x. map_of (details cg) ''exemption_used'' = Some (Num x) \<and> 0 \<le> x \<and>
             (0 < savings cg \<longleftrightarrow> 1 / 2 \<le> x * LTCG_RATE * (1 + CESS_RATE)) \<and>
             (4 \<le> x \<longrightarrow> 0 < savings cg) \<and>
             (x \<le> 3 \<longrightarrow> savings cg = 0))"
  proof
    assume o: "status cg = OPPORTUNITY"
    from checkCapitalGains_opportunity [OF o [unfolded cg_def]]
    obtain x where d: "map_of (details cg) ''exemption_used'' = Some (Num x)"
      and x0: "0 \<le> x"
      and sv: "savings cg = Math_round (x * LTCG_RATE * (1 + CESS_RATE))"
      unfolding cg_def by blast
    have "(0 < savings cg \<longleftrightarrow> 1 / 2 \<le> x * LTCG_RATE * (1 + CESS_RATE)) \<and>
          (4 \<le> x \<longrightarrow> 0 < savings cg) \<and> (x \<le> 3 \<longrightarrow> savings cg = 0)"
      unfolding sv using x0 cg_rate [of x] by (simp add: Math_round_pos_iff)
    with d x0 show "\<exists>x. map_of (details cg) ''exemption_used'' = Some (Num x) \<and> 0 \<le> x \<and>
             (0 < savings cg \<longleftrightarrow> 1 / 2 \<le> x * LTCG_RATE * (1 + CESS_RATE)) \<and>
             (4 \<le> x \<longrightarrow> 0 < savings cg) \<and>
             (x \<le> 3 \<longrightarrow> savings cg = 0)"
      by blast
  qed
  have hra: "status (checkHra s) = OPPORTUNITY \<longrightarrow> savings (checkHra s) = 0"
    by (simp add: savings_checkHra)
  have hl: "status (checkHomeLoan s) = OPPORTUNITY \<longrightarrow> savings (checkHomeLoan s) = 0"
    by (simp add: savings_checkHomeLoan)
  have c80c_a: "status (check80c s) = OPPORTUNITY \<longleftrightarrow> 0 < gap80c"
    using c80c check80c_status [of s] unfolding gap80c_def by blast
  have c80c_b: "status (check80c s) = OPPORTUNITY \<longrightarrow>
        (0 < savings (check80c s) \<longleftrightarrow> 1 / 2 \<le> gap80c * rate * (1 + CESS_RATE)) \<and>
        (250000 < gti \<and> 10 \<le> gap80c \<longrightarrow> 0 < savings (check80c s)) \<and>
        (gti \<le> 250000 \<longrightarrow> savings (check80c s) = 0)"
    using c80c by blast
  have c80d_a: "status (check80d s co) = OPPORTUNITY \<longleftrightarrow> 0 < premium"
    using c80d check80d_status [of s co] unfolding premium_def by blast
  have c80d_b: "status (check80d s co) = OPPORTUNITY \<longrightarrow>
        (0 < savings (check80d s co) \<longleftrightarrow> 1 / 2 \<le> premium * rate * (1 + CESS_RATE)) \<and>
        (250000 < gti \<and> 10 \<le> premium \<longrightarrow> 0 < savings (check80d s co)) \<and>
        (gti \<le> 250000 \<longrightarrow> savings (check80d s co) = 0)"
    using c80d by blast
  have cnps_a: "status (checkNps s) = OPPORTUNITY \<longleftrightarrow> 0 < gapNps"
    using cnps checkNps_status [of s] unfolding gapNps_def by blast
  have cnps_b: "status (checkNps s) = OPPORTUNITY \<longrightarrow>
        (0 < savings (checkNps s) \<longleftrightarrow> 1 / 2 \<le> gapNps * rate * (1 + CESS_RATE)) \<and>
        (250000 < gti \<and> 10 \<le> gapNps \<longrightarrow> 0 < savings (checkNps s)) \<and>
        (gti \<le> 250000 \<longrightarrow> savings (checkNps s) = 0)"
    using cnps by blast
  from reg c80c_a c80c_b c80d_a c80d_b cnps_a cnps_b ccg hra hl show ?thesis
    by (intro conjI)
qed


theorem C9_opportunity_savings_witness:
  "status (checkRegime PRIYA_PROFILE \<lparr>parentsSenior = None, selfSenior = None\<rparr>) = OPPORTUNITY \<and>
   0 < savings (checkRegime PRIYA_PROFILE \<lparr>parentsSenior = None, selfSenior = None\<rparr>) \<and>
   ob_gross_total_income (computeOldRegimeTaxableIncome PRIYA_PROFILE no_overrides) = 1447600 \<and>
   status (check80c PRIYA_PROFILE) = OPPORTUNITY \<and>
   0 < savings (check80c PRIYA_PROFILE) \<and>
   status (check80d PRIYA_PROFILE \<lparr>parentsSenior = None, selfSenior = None\<rparr>) = OPPORTUNITY \<and>
   0 < savings (check80d PRIYA_PROFILE \<lparr>parentsSenior = None, selfSenior = None\<rparr>) \<and>
   status (checkNps PRIYA_PROFILE) = OPPORTUNITY \<and>
   0 < savings (checkNps PRIYA_PROFILE) \<and>
   ob_gross_total_income
     (computeOldRegimeTaxableIncome (LOW_EARNER\<lparr>gross_salary := 300000\<rparr>) no_overrides)
     = 247600 \<and>
   status (check80c (LOW_EARNER\<lparr>gross_salary := 300000\<rparr>)) = OPPORTUNITY \<and>
   savings (check80c (LOW_EARNER\<lparr>gross_salary := 300000\<rparr>)) = 0 \<and>
   status (checkCapitalGains a_day ESTIMATED_HOLDINGS \<lparr>asOf = Some fy_end_2025\<rparr>) = OPPORTUNITY \<and>
   0 < savings (checkCapitalGains a_day ESTIMATED_HOLDINGS \<lparr>asOf = Some fy_end_2025\<rparr>) \<and>
   status (checkCapitalGains a_day RECENT_HOLDINGS \<lparr>asOf = Some fy_end_2025\<rparr>) = OPPORTUNITY \<and>
   savings (checkCapitalGains a_day RECENT_HOLDINGS \<lparr>asOf = Some fy_end_2025\<rparr>) = 0 \<and>
   status (checkHra PRIYA_PROFILE) = OPPORTUNITY \<and>
   savings (checkHra PRIYA_PROFILE) = 0 \<and>
   status (checkHomeLoan (PRIYA_PROFILE\<lparr>deduction_24b := 200000\<rparr>)) = OPPORTUNITY \<and>
   savings (checkHomeLoan (PRIYA_PROFILE\<lparr>deduction_24b := 200000\<rparr>)) = 0"
proof -
  let ?co = "\<lparr>parentsSenior = None, selfSenior = None\<rparr>"
  let ?cgo = "\<lparr>asOf = Some fy_end_2025\<rparr>"
  let ?low = "LOW_EARNER\<lparr>gross_salary := 300000\<rparr>"
  let ?loan = "PRIYA_PROFILE\<lparr>deduction_24b := 200000\<rparr>"
  have s1: "status (checkRegime PRIYA_PROFILE ?co) = OPPORTUNITY" by code_simp
  have s2: "status (check80c PRIYA_PROFILE) = OPPORTUNITY" by code_simp
  have s3: "status (check80d PRIYA_PROFILE ?co) = OPPORTUNITY" by code_simp
  have s4: "status (checkNps PRIYA_PROFILE) = OPPORTUNITY" by code_simp
  have s6: "status (checkHra PRIYA_PROFILE) = OPPORTUNITY" by code_simp
  have s7: "status (checkHomeLoan ?loan) = OPPORTUNITY"
    by (simp add: checkHomeLoan_def PRIYA_PROFILE_def Let_def)
  have g: "ob_gross_total_income (computeOldRegimeTaxableIncome PRIYA_PROFILE no_overrides)
      = 1447600"
    by code_simp
  have a2: "LIMIT_80C - (deduction_80c PRIYA_PROFILE + deduction_80ccc PRIYA_PROFILE +
      deduction_80ccd_1 PRIYA_PROFILE) = 78000"
    by code_simp
  have a3: "deduction_80d PRIYA_PROFILE = 0" "or_false None = False"
    "LIMIT_80D_PARENTS_BELOW_60 = 25000"
    by code_simp+
  have a4: "LIMIT_80CCD_1B - deduction_80ccd_1b PRIYA_PROFILE = 50000" by code_simp
  note p = C9_opportunity_savings [where s = PRIYA_PROFILE and co = ?co and today = a_day
      and h = ESTIMATED_HOLDINGS and cgo = ?cgo]
  note l = C9_opportunity_savings [where s = ?low and co = ?co and today = a_day
      and h = RECENT_HOLDINGS and cgo = ?cgo]
  note n = C9_opportunity_savings [where s = ?loan and co = ?co and today = a_day
      and h = RECENT_HOLDINGS and cgo = ?cgo]
  let ?gti = "ob_gross_total_income (computeOldRegimeTaxableIncome PRIYA_PROFILE no_overrides)"
  have r1: "0 < savings (checkRegime PRIYA_PROFILE ?co)"
    by (rule p [THEN conjunct1, THEN mp, OF s1])
  from p [THEN conjunct2, THEN conjunct2, THEN conjunct1, THEN mp, OF s2] have "250000 < ?gti \<and>
      10 \<le> LIMIT_80C - (deduction_80c PRIYA_PROFILE + deduction_80ccc PRIYA_PROFILE +
        deduction_80ccd_1 PRIYA_PROFILE) \<longrightarrow> 0 < savings (check80c PRIYA_PROFILE)"
    by blast
  then have r2: "0 < savings (check80c PRIYA_PROFILE)" by (simp add: g a2)
  from p [THEN conjunct2, THEN conjunct2, THEN conjunct2, THEN conjunct2, THEN conjunct1,
      THEN mp, OF s3] have "250000 < ?gti \<and>
      10 \<le> (if deduction_80d PRIYA_PROFILE = 0 then
         (if or_false (parentsSenior ?co) then LIMIT_80D_PARENTS_SENIOR
          else LIMIT_80D_PARENTS_BELOW_60)
       else
         (if or_false (selfSenior ?co) then LIMIT_80D_SELF_SENIOR else LIMIT_80D_SELF_BELOW_60) +
         (if or_false (parentsSenior ?co) then LIMIT_80D_PARENTS_SENIOR
          else LIMIT_80D_PARENTS_BELOW_60) - deduction_80d PRIYA_PROFILE)
      \<longrightarrow> 0 < savings (check80d PRIYA_PROFILE ?co)"
    by blast
  then have r3: "0 < savings (check80d PRIYA_PROFILE ?co)" by (simp add: g a3)
  from p [THEN conjunct2, THEN conjunct2, THEN conjunct2, THEN conjunct2, THEN conjunct2, THEN conjunct2, THEN conjunct1,
      THEN mp, OF s4]
  have "250000 < ?gti \<and> 10 \<le> LIMIT_80CCD_1B - deduction_80ccd_1b PRIYA_PROFILE
      \<longrightarrow> 0 < savings (checkNps PRIYA_PROFILE)"
    by blast
  then have r4: "0 < savings (checkNps PRIYA_PROFILE)" by (simp add: g a4)
  from l [THEN conjunct2, THEN conjunct2, THEN conjunct1, THEN mp, OF three_lakh(1)] have
    "ob_gross_total_income (computeOldRegimeTaxableIncome ?low no_overrides) \<le> 250000
       \<longrightarrow> savings (check80c ?low) = 0"
    by blast
  then have r5: "savings (check80c ?low) = 0" by (simp add: three_lakh(7))
  note pcg = p [THEN conjunct2, THEN conjunct2, THEN conjunct2, THEN conjunct2, THEN conjunct2, THEN conjunct2, THEN conjunct2, THEN conjunct1,
      THEN mp, OF estimated_cg(1)]
  note lcg = l [THEN conjunct2, THEN conjunct2, THEN conjunct2, THEN conjunct2, THEN conjunct2, THEN conjunct2, THEN conjunct2, THEN conjunct1,
      THEN mp, OF recent_cg(1)]
  from pcg obtain x where
    "map_of (details (checkCapitalGains a_day ESTIMATED_HOLDINGS ?cgo)) ''exemption_used''
       = Some (Num x)"
    and "4 \<le> x \<longrightarrow> 0 < savings (checkCapitalGains a_day ESTIMATED_HOLDINGS ?cgo)"
    by blast
  then have r6: "0 < savings (checkCapitalGains a_day ESTIMATED_HOLDINGS ?cgo)"
    by (simp add: used_cg(1))
  from lcg obtain y where
    "map_of (details (checkCapitalGains a_day RECENT_HOLDINGS ?cgo)) ''exemption_used''
       = Some (Num y)"
    and "y \<le> 3 \<longrightarrow> savings (checkCapitalGains a_day RECENT_HOLDINGS ?cgo) = 0"
    by blast
  then have r7: "savings (checkCapitalGains a_day RECENT_HOLDINGS ?cgo) = 0"
    by (simp add: used_cg(2))
  have r8: "savings (checkHra PRIYA_PROFILE) = 0"
    by (rule p [THEN conjunct2, THEN conjunct2, THEN conjunct2, THEN conjunct2, THEN conjunct2, THEN conjunct2, THEN conjunct2, THEN conjunct2,
      THEN conjunct1, THEN mp, OF s6])
  have r9: "savings (checkHomeLoan ?loan) = 0"
    by (rule n [THEN conjunct2, THEN conjunct2, THEN conjunct2, THEN conjunct2, THEN conjunct2, THEN conjunct2, THEN conjunct2, THEN conjunct2,
      THEN conjunct2, THEN mp, OF s7])
  from s1 r1 g s2 r2 s3 r3 s4 r4 three_lakh(7) three_lakh(1) r5 estimated_cg(1) r6
    recent_cg(1) r7 s6 r8 s7 r9
  show ?thesis by blast
qed


subsection \<open>Marginal relief\<close>

text \<open>
  Claim C2 fails on the code. One rupee above the first threshold of the old surcharge
  table (T = 5000000, delta = 1, financial year 2024-25, below 60) the tax after rebate is
  1312500.3 and the surcharge, the relief amount 0.7 rounded to the nearest rupee, is 1:
  the total before cess is 1312501.3, above the total at the threshold (1312500) plus
  the excess income (1). The same happens one rupee above the thresholds 10000000,
  20000000 and 50000000.
\<close>

theorem C2_marginal_relief_exceeded_by_rounding:
  "tax_after_rebate (calculateOldRegimeTax 5000000 ''2024-25'' ''below_60'') = 1312500 \<and>
   surcharge (calculateOldRegimeTax 5000000 ''2024-25'' ''below_60'') = 0 \<and>
   tax_after_rebate (calculateOldRegimeTax (5000000 + 1) ''2024-25'' ''below_60'')
     = 13125003 / 10 \<and>
   surcharge (calculateOldRegimeTax (5000000 + 1) ''2024-25'' ''below_60'') = 1 \<and>
   \<not> tax_after_rebate (calculateOldRegimeTax (5000000 + 1) ''2024-25'' ''below_60'') +
       surcharge (calculateOldRegimeTax (5000000 + 1) ''2024-25'' ''below_60'')
     \<le> tax_after_rebate (calculateOldRegimeTax 5000000 ''2024-25'' ''below_60'') +
       surcharge (calculateOldRegimeTax 5000000 ''2024-25'' ''below_60'') + 1 \<and>
   \<not> tax_after_rebate (calculateOldRegimeTax (10000000 + 1) ''2024-25'' ''below_60'') +
       surcharge (calculateOldRegimeTax (10000000 + 1) ''2024-25'' ''below_60'')
     \<le> tax_after_rebate (calculateOldRegimeTax 10000000 ''2024-25'' ''below_60'') +
       surcharge (calculateOldRegimeTax 10000000 ''2024-25'' ''below_60'') + 1 \<and>
   \<not> tax_after_rebate (calculateOldRegimeTax (20000000 + 1) ''2024-25'' ''below_60'') +
       surcharge (calculateOldRegimeTax (20000000 + 1) ''2024-25'' ''below_60'')
     \<le> tax_after_rebate (calculateOldRegimeTax 20000000 ''2024-25'' ''below_60'') +
       surcharge (calculateOldRegimeTax 20000000 ''2024-25'' ''below_60'') + 1 \<and>
   \<not> tax_after_rebate (calculateOldRegimeTax (50000000 + 1) ''2024-25'' ''below_60'') +
       surcharge (calculateOldRegimeTax (50000000 + 1) ''2024-25'' ''below_60'')
     \<le> tax_after_rebate (calculateOldRegimeTax 50000000 ''2024-25'' ''below_60'') +
       surcharge (calculateOldRegimeTax 50000000 ''2024-25'' ''below_60'') + 1"
  by code_simp

text \<open>
  The excess is the rounding of the surcharge and no more: for every threshold of the old
  surcharge table and every income above it, the total before cess stays within half a
  rupee of the bound.
\<close>

lemma old_tax_high:
  "1000000 \<le> x \<Longrightarrow>
   computeTaxOnSlabs x OLD_REGIME_SLABS_BELOW_60 = 112500 + 3 / 10 * (x - 1000000)"
  by (simp add: computeTaxOnSlabs_def OLD_REGIME_SLABS_BELOW_60_def)

lemma old_surcharge_slab:
  "5000000 < x \<Longrightarrow> x \<le> 10000000 \<Longrightarrow>
     surcharge_loop x SURCHARGE_SLABS_OLD 0 0 = (10 / 100, 5000000, 0)"
  "10000000 < x \<Longrightarrow> x \<le> 20000000 \<Longrightarrow>
     surcharge_loop x SURCHARGE_SLABS_OLD 0 0 = (15 / 100, 10000000, 10 / 100)"
  "20000000 < x \<Longrightarrow> x \<le> 50000000 \<Longrightarrow>
     surcharge_loop x SURCHARGE_SLABS_OLD 0 0 = (25 / 100, 20000000, 15 / 100)"
  "50000000 < x \<Longrightarrow>
     surcharge_loop x SURCHARGE_SLABS_OLD 0 0 = (37 / 100, 50000000, 25 / 100)"
  by (simp_all add: SURCHARGE_SLABS_OLD_def)

lemma getSurcharge_le:
  assumes "surcharge_loop x sslabs 0 0 = (r, p, pr)"
    and "0 \<le> computeTaxOnSlabs p tslabs * (1 + pr) + (x - p) - b"
  shows "b + getSurcharge x b sslabs tslabs
           \<le> computeTaxOnSlabs p tslabs * (1 + pr) + (x - p) + 1 / 2"
proof -
  let ?m = "computeTaxOnSlabs p tslabs * (1 + pr) + (x - p)"
  have r: "Math_round (?m - b) \<le> ?m - b + 1 / 2" by (rule Math_round_le)
  have "getSurcharge x b sslabs tslabs \<le> ?m - b + 1 / 2"
  proof (cases "r = 0")
    case True
    then show ?thesis using assms by (simp add: getSurcharge_def)
  next
    case False
    show ?thesis
    proof (cases "b + b * r > ?m")
      case True
      then have "getSurcharge x b sslabs tslabs = Math_round (max (?m - b) 0)"
        using assms(1) False by (simp add: getSurcharge_def Let_def algebra_simps)
      also have "\<dots> = Math_round (?m - b)" using assms(2) by (simp add: max_def)
      finally show ?thesis using r by simp
    next
      case False
      then have "getSurcharge x b sslabs tslabs = Math_round (b * r)"
        using assms(1) \<open>r \<noteq> 0\<close> by (simp add: getSurcharge_def Let_def algebra_simps)
      also have "\<dots> \<le> Math_round (?m - b)" using False by (intro Math_round_mono) simp
      finally show ?thesis using r by simp
    qed
  qed
  then show ?thesis by simp
qed

lemma old_tax_thresholds:
  "computeTaxOnSlabs 5000000 OLD_REGIME_SLABS_BELOW_60 = 1312500"
  "computeTaxOnSlabs 10000000 OLD_REGIME_SLABS_BELOW_60 = 2812500"
  "computeTaxOnSlabs 20000000 OLD_REGIME_SLABS_BELOW_60 = 5812500"
  "computeTaxOnSlabs 50000000 OLD_REGIME_SLABS_BELOW_60 = 14812500"
  by (simp_all add: old_tax_high)

lemma old_no_rebate: "500000 < x \<Longrightarrow> apply87aRebate t x ''old'' fy = t"
  by (simp add: apply87aRebate_def REBATE_87A_def)

lemma old_pre_cess:
  assumes "5000000 \<le> x"
  shows "tax_after_rebate (calculateOldRegimeTax x fy ''below_60'') =
           112500 + 3 / 10 * (x - 1000000)"
    and "surcharge (calculateOldRegimeTax x fy ''below_60'') =
           getSurcharge x (112500 + 3 / 10 * (x - 1000000)) SURCHARGE_SLABS_OLD
             OLD_REGIME_SLABS_BELOW_60"
  using assms by (simp_all add: calculateOldRegimeTax_def Let_def old_no_rebate old_tax_high)

lemma old_pre_cess_at_thresholds:
  "tax_after_rebate (calculateOldRegimeTax 5000000 fy ''below_60'') +
     surcharge (calculateOldRegimeTax 5000000 fy ''below_60'') = 1312500"
  "tax_after_rebate (calculateOldRegimeTax 10000000 fy ''below_60'') +
     surcharge (calculateOldRegimeTax 10000000 fy ''below_60'') = 3093750"
  "tax_after_rebate (calculateOldRegimeTax 20000000 fy ''below_60'') +
     surcharge (calculateOldRegimeTax 20000000 fy ''below_60'') = 6684375"
  "tax_after_rebate (calculateOldRegimeTax 50000000 fy ''below_60'') +
     surcharge (calculateOldRegimeTax 50000000 fy ''below_60'') = 18515625"
  by (simp_all add: old_pre_cess getSurcharge_def SURCHARGE_SLABS_OLD_def old_tax_high
      Math_round_numeral Let_def)

lemma old_pre_cess_above:
  fixes x :: rat and fy :: string
  defines "pre \<equiv> tax_after_rebate (calculateOldRegimeTax x fy ''below_60'') +
                   surcharge (calculateOldRegimeTax x fy ''below_60'')"
  shows "5000000 < x \<Longrightarrow> x \<le> 10000000 \<Longrightarrow> pre \<le> 1312500 + (x - 5000000) + 1 / 2"
    and "10000000 < x \<Longrightarrow> x \<le> 20000000 \<Longrightarrow> pre \<le> 3093750 + (x - 10000000) + 1 / 2"
    and "20000000 < x \<Longrightarrow> x \<le> 50000000 \<Longrightarrow> pre \<le> 6684375 + (x - 20000000) + 1 / 2"
    and "50000000 < x \<Longrightarrow> pre \<le> 18515625 + (x - 50000000) + 1 / 2"
proof -
  let ?b = "112500 + 3 / 10 * (x - 1000000)"
  have pre: "pre = ?b + getSurcharge x ?b SURCHARGE_SLABS_OLD OLD_REGIME_SLABS_BELOW_60"
    if "5000000 < x"
    using that by (simp add: pre_def old_pre_cess)
  show "pre \<le> 1312500 + (x - 5000000) + 1 / 2" if a: "5000000 < x" and b: "x \<le> 10000000"
  proof -
    have x5: "5000000 < x" using a by simp
    have "0 \<le> computeTaxOnSlabs 5000000 OLD_REGIME_SLABS_BELOW_60 * (1 + 0)
               + (x - 5000000) - ?b"
      using a unfolding old_tax_thresholds by (simp add: algebra_simps)
    from getSurcharge_le [OF old_surcharge_slab(1) [OF a b] this]
    show ?thesis unfolding pre [OF x5] old_tax_thresholds by (simp add: algebra_simps)
  qed
  show "pre \<le> 3093750 + (x - 10000000) + 1 / 2" if a: "10000000 < x" and b: "x \<le> 20000000"
  proof -
    have x5: "5000000 < x" using a by simp
    have "0 \<le> computeTaxOnSlabs 10000000 OLD_REGIME_SLABS_BELOW_60 * (1 + 10 / 100)
               + (x - 10000000) - ?b"
      using a unfolding old_tax_thresholds by (simp add: algebra_simps)
    from getSurcharge_le [OF old_surcharge_slab(2) [OF a b] this]
    show ?thesis unfolding pre [OF x5] old_tax_thresholds by (simp add: algebra_simps)
  qed
  show "pre \<le> 6684375 + (x - 20000000) + 1 / 2" if a: "20000000 < x" and b: "x \<le> 50000000"
  proof -
    have x5: "5000000 < x" using a by simp
    have "0 \<le> computeTaxOnSlabs 20000000 OLD_REGIME_SLABS_BELOW_60 * (1 + 15 / 100)
               + (x - 20000000) - ?b"
      using a unfolding old_tax_thresholds by (simp add: algebra_simps)
    from getSurcharge_le [OF old_surcharge_slab(3) [OF a b] this]
    show ?thesis unfolding pre [OF x5] old_tax_thresholds by (simp add: algebra_simps)
  qed
  show "pre \<le> 18515625 + (x - 50000000) + 1 / 2" if a: "50000000 < x"
  proof -
    have x5: "5000000 < x" using a by simp
    have "0 \<le> computeTaxOnSlabs 50000000 OLD_REGIME_SLABS_BELOW_60 * (1 + 25 / 100)
               + (x - 50000000) - ?b"
      using a unfolding old_tax_thresholds by (simp add: algebra_simps)
    from getSurcharge_le [OF old_surcharge_slab(4) [OF a] this]
    show ?thesis unfolding pre [OF x5] old_tax_thresholds by (simp add: algebra_simps)
  qed
qed

lemma marginal_relief_up_to_rounding:
  assumes "T = 5000000 \<or> T = 10000000 \<or> T = 20000000 \<or> T = 50000000" and "0 < d"
  shows "tax_after_rebate (calculateOldRegimeTax (T + d) fy ''below_60'') +
           surcharge (calculateOldRegimeTax (T + d) fy ''below_60'')
         \<le> tax_after_rebate (calculateOldRegimeTax T fy ''below_60'') +
           surcharge (calculateOldRegimeTax T fy ''below_60'') + d + 1 / 2"
proof -
  let ?x = "T + d"
  consider "5000000 < ?x \<and> ?x \<le> 10000000" | "10000000 < ?x \<and> ?x \<le> 20000000"
    | "20000000 < ?x \<and> ?x \<le> 50000000" | "50000000 < ?x"
    using assms by linarith
  then show ?thesis
  proof cases
    case 1
    then show ?thesis
      using assms old_pre_cess_above(1) [of ?x fy] old_pre_cess_at_thresholds [of fy] by auto
  next
    case 2
    then show ?thesis
      using assms old_pre_cess_above(2) [of ?x fy] old_pre_cess_at_thresholds [of fy] by auto
  next
    case 3
    then show ?thesis
      using assms old_pre_cess_above(3) [of ?x fy] old_pre_cess_at_thresholds [of fy] by auto
  next
    case 4
    then show ?thesis
      using assms old_pre_cess_above(4) [of ?x fy] old_pre_cess_at_thresholds [of fy] by auto
  qed
qed

end
